theory Spec2Isabelle
  imports Main
begin

section \<open>The Santorini board (\<^verbatim>\<open>santorini_bot/board.py\<close>)\<close>

text \<open>
  The two enums and the three turn dataclasses of \<^verbatim>\<open>board.py\<close>. Python's unbounded
  integers are \<^typ>\<open>int\<close>.
\<close>

datatype color = BLUE | WHITE

datatype turn_actions = PLACE_WORKER | MOVE | BUILD

datatype turn_args =
    PlaceWorkerTurn color int int
  | MoveTurn color int int int int
  | BuildTurn color int int int int

text \<open>
  Every exception the modelled code can raise. \<open>IllegalMoveError\<close> and
  \<open>IllegalBoardStateError\<close> are the two exception classes of \<^verbatim>\<open>board.py\<close>; the other
  three are Python's own: \<open>IndexError\<close> for an index out of range, \<open>AttributeError\<close> for
  an attribute that an object does not have, \<open>ValueError\<close> for \<^verbatim>\<open>np.zeros\<close> with a
  negative dimension.
\<close>

datatype error =
  IllegalMoveError | IllegalBoardStateError | IndexError | AttributeError | ValueError

text \<open>
  Dataclass \<^verbatim>\<open>Worker\<close> (fields \<^verbatim>\<open>x\<close>, \<^verbatim>\<open>y\<close>, \<^verbatim>\<open>height\<close>, \<^verbatim>\<open>color\<close>) and the
  attributes of class \<^verbatim>\<open>Board\<close>. \<^verbatim>\<open>board_blocks\<close> is the numpy array of shape
  \<^verbatim>\<open>(length, width)\<close>, kept as the list of its rows; its 64-bit cells are unbounded
  integers here (a cell only ever grows by one per build).
\<close>

record worker =
  x_of :: int
  y_of :: int
  height_of :: int
  color_of :: color

record board =
  length_b :: int
  width :: int
  max_height :: int
  max_workers_per_player :: int
  workers :: "worker list"
  board_blocks :: "int list list"

text \<open>
  Indexing a Python list or a numpy axis: a negative index counts from the end, an index
  out of range raises \<open>IndexError\<close>.
\<close>

definition getitem :: "'a list \<Rightarrow> int \<Rightarrow> error + 'a" where
  "getitem xs i =
     (if 0 \<le> i \<and> i < int (length xs) then Inr (xs ! nat i)
      else if i < 0 \<and> - int (length xs) \<le> i then Inr (xs ! nat (int (length xs) + i))
      else Inl IndexError)"

text \<open>\<^verbatim>\<open>Board.__init__\<close>: no workers, a grid of zeros.\<close>

definition Board_init :: "int \<Rightarrow> int \<Rightarrow> int \<Rightarrow> int \<Rightarrow> error + board" where
  "Board_init l w mh mw =
     (if l < 0 \<or> w < 0 then Inl ValueError
      else Inr \<lparr>length_b = l, width = w, max_height = mh, max_workers_per_player = mw,
                workers = [], board_blocks = replicate (nat l) (replicate (nat w) 0)\<rparr>)"

text \<open>
  \<^verbatim>\<open>self._neighboring_shifts\<close>: \<^verbatim>\<open>product([0, -1, 1], repeat=2)\<close> without \<^verbatim>\<open>(0, 0)\<close>.
\<close>

definition neighboring_shifts :: "(int \<times> int) list" where
  "neighboring_shifts =
     filter (\<lambda>s. s \<noteq> (0, 0)) (List.product [0, - 1, 1] [0, - 1, 1])"

definition is_on_board :: "board \<Rightarrow> int \<Rightarrow> int \<Rightarrow> bool" where
  "is_on_board b x y = (0 \<le> x \<and> x < width b \<and> 0 \<le> y \<and> y < length_b b)"

text \<open>\<^verbatim>\<open>_block_height\<close>: \<^verbatim>\<open>self.board_blocks[y][x]\<close>.\<close>

definition block_height :: "board \<Rightarrow> int \<Rightarrow> int \<Rightarrow> error + int" where
  "block_height b x y =
     (case getitem (board_blocks b) y of
        Inl e \<Rightarrow> Inl e
      | Inr row \<Rightarrow> getitem row x)"

definition worker_on_space :: "board \<Rightarrow> int \<Rightarrow> int \<Rightarrow> bool" where
  "worker_on_space b x y = list_ex (\<lambda>w. x_of w = x \<and> y_of w = y) (workers b)"

definition is_neighboring_space :: "worker \<Rightarrow> int \<Rightarrow> int \<Rightarrow> bool" where
  "is_neighboring_space w x y = ((x - x_of w, y - y_of w) \<in> set neighboring_shifts)"

text \<open>\<^verbatim>\<open>_num_workers\<close>: Python's \<^verbatim>\<open>sum\<close> over booleans.\<close>

definition num_workers :: "board \<Rightarrow> color \<Rightarrow> int" where
  "num_workers b c = sum_list (map (\<lambda>w. if color_of w = c then 1 else 0) (workers b))"

definition player_can_place_workers :: "board \<Rightarrow> color \<Rightarrow> bool" where
  "player_can_place_workers b c = (num_workers b c < max_workers_per_player b)"

definition get_workers_with_color :: "board \<Rightarrow> color \<Rightarrow> worker list" where
  "get_workers_with_color b c = filter (\<lambda>w. color_of w = c) (workers b)"

text \<open>\<^verbatim>\<open>_get_worker_at\<close> and \<^verbatim>\<open>_get_worker_index\<close>: the first worker at \<open>(x, y)\<close>.\<close>

definition get_worker_at :: "board \<Rightarrow> int \<Rightarrow> int \<Rightarrow> error + worker" where
  "get_worker_at b x y =
     (case find (\<lambda>w. x_of w = x \<and> y_of w = y) (workers b) of
        None \<Rightarrow> Inl IllegalMoveError
      | Some w \<Rightarrow> Inr w)"

fun worker_index :: "worker list \<Rightarrow> int \<Rightarrow> int \<Rightarrow> nat option" where
  "worker_index [] x y = None"
| "worker_index (w # ws) x y =
     (if x_of w = x \<and> y_of w = y then Some 0 else map_option Suc (worker_index ws x y))"

definition get_worker_index :: "board \<Rightarrow> int \<Rightarrow> int \<Rightarrow> error + nat" where
  "get_worker_index b x y =
     (case worker_index (workers b) x y of
        None \<Rightarrow> Inl IllegalMoveError
      | Some i \<Rightarrow> Inr i)"

text \<open>
  The three legality predicates. The height is read only after the bounds check, as in
  the source; \<^verbatim>\<open>and\<close> evaluates the height comparison first.
\<close>

definition is_valid_placement :: "board \<Rightarrow> color \<Rightarrow> int \<Rightarrow> int \<Rightarrow> bool" where
  "is_valid_placement b c x y =
     (if is_on_board b x y
      then player_can_place_workers b c \<and> \<not> worker_on_space b x y
      else False)"

definition is_valid_move :: "board \<Rightarrow> worker \<Rightarrow> int \<Rightarrow> int \<Rightarrow> error + bool" where
  "is_valid_move b w x y =
     (if is_on_board b x y
      then (case block_height b x y of
              Inl e \<Rightarrow> Inl e
            | Inr xy_block_height \<Rightarrow>
                Inr (xy_block_height \<le> height_of w + 1
                     \<and> xy_block_height < max_height b
                     \<and> \<not> worker_on_space b x y
                     \<and> is_neighboring_space w x y))
      else Inr False)"

definition is_valid_build :: "board \<Rightarrow> worker \<Rightarrow> int \<Rightarrow> int \<Rightarrow> error + bool" where
  "is_valid_build b w x y =
     (if is_on_board b x y
      then (case block_height b x y of
              Inl e \<Rightarrow> Inl e
            | Inr h \<Rightarrow>
                Inr (h < max_height b
                     \<and> \<not> worker_on_space b x y
                     \<and> is_neighboring_space w x y))
      else Inr False)"

text \<open>\<^verbatim>\<open>filter\<close> with a predicate that may raise: the first exception ends the scan.\<close>

fun filter_res :: "('a \<Rightarrow> error + bool) \<Rightarrow> 'a list \<Rightarrow> error + 'a list" where
  "filter_res p [] = Inr []"
| "filter_res p (a # as) =
     (case p a of
        Inl e \<Rightarrow> Inl e
      | Inr keep \<Rightarrow>
          (case filter_res p as of
             Inl e \<Rightarrow> Inl e
           | Inr r \<Rightarrow> Inr (if keep then a # r else r)))"

definition get_valid_moves :: "board \<Rightarrow> worker \<Rightarrow> error + turn_args list" where
  "get_valid_moves b w =
     (let move_coordinates = map (\<lambda>s. (x_of w + fst s, y_of w + snd s)) neighboring_shifts
      in case filter_res (\<lambda>xy. is_valid_move b w (fst xy) (snd xy)) move_coordinates of
           Inl e \<Rightarrow> Inl e
         | Inr cs \<Rightarrow>
             Inr (map (\<lambda>c. MoveTurn (color_of w) (x_of w) (y_of w) (fst c) (snd c)) cs))"

definition get_valid_builds :: "board \<Rightarrow> worker \<Rightarrow> error + turn_args list" where
  "get_valid_builds b w =
     (let build_coordinates = map (\<lambda>s. (x_of w + fst s, y_of w + snd s)) neighboring_shifts
      in case filter_res (\<lambda>xy. is_valid_build b w (fst xy) (snd xy)) build_coordinates of
           Inl e \<Rightarrow> Inl e
         | Inr cs \<Rightarrow>
             Inr (map (\<lambda>c. BuildTurn (color_of w) (x_of w) (y_of w) (fst c) (snd c)) cs))"

text \<open>A \<^verbatim>\<open>for\<close> loop that breaks at the first hit, over a test that may raise.\<close>

fun any_res :: "('a \<Rightarrow> error + bool) \<Rightarrow> 'a list \<Rightarrow> error + bool" where
  "any_res p [] = Inr False"
| "any_res p (a # as) =
     (case p a of
        Inl e \<Rightarrow> Inl e
      | Inr hit \<Rightarrow> if hit then Inr True else any_res p as)"

definition player_can_move :: "board \<Rightarrow> color \<Rightarrow> error + bool" where
  "player_can_move b c =
     any_res (\<lambda>w. case get_valid_moves b w of
                    Inl e \<Rightarrow> Inl e
                  | Inr ms \<Rightarrow> Inr (length ms \<noteq> 0))
             (get_workers_with_color b c)"

definition player_in_win_state :: "board \<Rightarrow> color \<Rightarrow> error + bool" where
  "player_in_win_state b c =
     (let workers_at_max_height =
            filter (\<lambda>w. height_of w = max_height b - 1) (get_workers_with_color b c)
      in if length workers_at_max_height > 1 then Inl IllegalBoardStateError
         else Inr (length workers_at_max_height = 1))"

definition player_in_lose_state_before_move :: "board \<Rightarrow> color \<Rightarrow> error + bool" where
  "player_in_lose_state_before_move b c =
     (case player_can_move b c of Inl e \<Rightarrow> Inl e | Inr can \<Rightarrow> Inr (\<not> can))"

definition player_in_lose_state_after_move :: "board \<Rightarrow> int \<Rightarrow> int \<Rightarrow> error + bool" where
  "player_in_lose_state_after_move b worker_x worker_y =
     (case get_worker_at b worker_x worker_y of
        Inl e \<Rightarrow> Inl e
      | Inr w \<Rightarrow>
          (case get_valid_builds b w of
             Inl e \<Rightarrow> Inl e
           | Inr bs \<Rightarrow> Inr (length bs = 0)))"

text \<open>
  The mutators. Each returns the board it leaves behind, or the exception it raises (a
  raising mutator has changed nothing).
\<close>

definition place_worker :: "board \<Rightarrow> color \<Rightarrow> int \<Rightarrow> int \<Rightarrow> error + board" where
  "place_worker b c x y =
     (if \<not> player_can_place_workers b c then Inl IllegalMoveError
      else if \<not> worker_on_space b x y
      then Inr (b\<lparr>workers := workers b @ [\<lparr>x_of = x, y_of = y, height_of = 0, color_of = c\<rparr>]\<rparr>)
      else Inl IllegalMoveError)"

text \<open>\<^verbatim>\<open>Worker.move\<close>, with its optional height.\<close>

definition Worker_move :: "worker \<Rightarrow> int \<Rightarrow> int \<Rightarrow> int option \<Rightarrow> worker" where
  "Worker_move w x y h =
     (let w' = w\<lparr>x_of := x, y_of := y\<rparr>
      in case h of None \<Rightarrow> w' | Some h' \<Rightarrow> w'\<lparr>height_of := h'\<rparr>)"

definition move :: "board \<Rightarrow> color \<Rightarrow> int \<Rightarrow> int \<Rightarrow> int \<Rightarrow> int \<Rightarrow> error + board" where
  "move b c start_x start_y end_x end_y =
     (case get_worker_index b start_x start_y of
        Inl e \<Rightarrow> Inl e
      | Inr worker_idx \<Rightarrow>
          if color_of (workers b ! worker_idx) \<noteq> c then Inl IllegalMoveError
          else (case is_valid_move b (workers b ! worker_idx) end_x end_y of
                  Inl e \<Rightarrow> Inl e
                | Inr ok \<Rightarrow>
                    if ok
                    then (case block_height b end_x end_y of
                            Inl e \<Rightarrow> Inl e
                          | Inr h \<Rightarrow>
                              Inr (b\<lparr>workers := (workers b)
                                     [worker_idx :=
                                        Worker_move (workers b ! worker_idx) end_x end_y (Some h)]\<rparr>))
                    else Inl IllegalMoveError))"

definition build :: "board \<Rightarrow> color \<Rightarrow> int \<Rightarrow> int \<Rightarrow> int \<Rightarrow> int \<Rightarrow> error + board" where
  "build b c worker_x worker_y build_x build_y =
     (case get_worker_at b worker_x worker_y of
        Inl e \<Rightarrow> Inl e
      | Inr w \<Rightarrow>
          if color_of w \<noteq> c then Inl IllegalMoveError
          else (case is_valid_build b w build_x build_y of
                  Inl e \<Rightarrow> Inl e
                | Inr ok \<Rightarrow>
                    if ok
                    then Inr (b\<lparr>board_blocks := (board_blocks b)
                                [nat build_y := (board_blocks b ! nat build_y)
                                   [nat build_x := board_blocks b ! nat build_y ! nat build_x + 1]]\<rparr>)
                    else Inl IllegalMoveError))"

definition reset :: "board \<Rightarrow> error + board" where
  "reset b =
     (if length_b b < 0 \<or> width b < 0 then Inl ValueError
      else Inr (b\<lparr>workers := [],
                  board_blocks := replicate (nat (length_b b)) (replicate (nat (width b)) 0)\<rparr>))"


section \<open>The turn engine (\<^verbatim>\<open>santorini_bot/game.py\<close>)\<close>

text \<open>
  Dataclass \<^verbatim>\<open>GameState\<close> (one snapshot of the log) and the attributes of class
  \<^verbatim>\<open>GameManager\<close>. The two deques are lists, head first. Every board is a value here,
  as \<^verbatim>\<open>update_game_state\<close> only ever changes its own \<^verbatim>\<open>deepcopy\<close> of the board.
\<close>

record game_state =
  gs_active_player :: color
  gs_board :: board
  gs_turn_action :: turn_actions
  gs_turn :: turn_args

record game_manager =
  initial_board :: board
  board :: board
  initial_player_order :: "color list"
  player_order :: "color list"
  initial_turn_order :: "turn_actions list"
  turn_order :: "turn_actions list"
  game_state_log :: "game_state list"

text \<open>\<^verbatim>\<open>GameManager.__init__\<close>, given the player order and the board.\<close>

definition GameManager_init :: "color list \<Rightarrow> board \<Rightarrow> game_manager" where
  "GameManager_init order b =
     \<lparr>initial_board = b, board = b,
      initial_player_order = order, player_order = order,
      initial_turn_order = [MOVE, BUILD], turn_order = [MOVE, BUILD],
      game_state_log = []\<rparr>"

text \<open>The three properties. \<^verbatim>\<open>self.player_order[0]\<close> raises on an empty deque.\<close>

definition active_player :: "game_manager \<Rightarrow> error + color" where
  "active_player gm = (case player_order gm of [] \<Rightarrow> Inl IndexError | p # _ \<Rightarrow> Inr p)"

definition current_turn_action :: "game_manager \<Rightarrow> error + turn_actions" where
  "current_turn_action gm =
     (let can_place_workers =
            list_ex (\<lambda>c. player_can_place_workers (board gm) c) (player_order gm)
      in if can_place_workers then Inr PLACE_WORKER
         else (case turn_order gm of [] \<Rightarrow> Inl IndexError | a # _ \<Rightarrow> Inr a))"

definition previous_game_state :: "game_manager \<Rightarrow> game_state option" where
  "previous_game_state gm =
     (if length (game_state_log gm) \<noteq> 0 then Some (last (game_state_log gm)) else None)"

text \<open>
  A method of the manager changes the manager and may raise: it returns the exception, if
  any, and the manager it leaves behind.
\<close>

definition or_raise ::
  "error + 'a \<Rightarrow> game_manager \<Rightarrow> ('a \<Rightarrow> error option \<times> game_manager)
     \<Rightarrow> error option \<times> game_manager" where
  "or_raise r gm k = (case r of Inl e \<Rightarrow> (Some e, gm) | Inr v \<Rightarrow> k v)"

definition change_active_player :: "game_manager \<Rightarrow> error option \<times> game_manager" where
  "change_active_player gm =
     (case player_order gm of
        [] \<Rightarrow> (Some IndexError, gm)
      | p # ps \<Rightarrow> (None, gm\<lparr>player_order := ps @ [p]\<rparr>))"

text \<open>
  \<^verbatim>\<open>_change_current_turn_action\<close>. With an empty log \<^verbatim>\<open>previous_game_state\<close> is
  \<^verbatim>\<open>None\<close>, and reading its \<^verbatim>\<open>turn_action\<close> raises.
\<close>

definition change_current_turn_action :: "game_manager \<Rightarrow> error option \<times> game_manager" where
  "change_current_turn_action gm =
     (let no_player_can_place_workers =
            list_all (\<lambda>c. \<not> player_can_place_workers (board gm) c) (player_order gm)
      in if no_player_can_place_workers
         then (case previous_game_state gm of
                 None \<Rightarrow> (Some AttributeError, gm)
               | Some prev \<Rightarrow>
                   if gs_turn_action prev \<noteq> PLACE_WORKER
                   then (case turn_order gm of
                           [] \<Rightarrow> (Some IndexError, gm)
                         | a # as \<Rightarrow> (None, gm\<lparr>turn_order := as @ [a]\<rparr>))
                   else (None, gm))
         else (None, gm))"

definition check_win_state_board_win_state :: "game_manager \<Rightarrow> error + bool" where
  "check_win_state_board_win_state gm =
     (case previous_game_state gm of
        None \<Rightarrow> Inr False
      | Some prev \<Rightarrow>
          (case active_player gm of
             Inl e \<Rightarrow> Inl e
           | Inr p \<Rightarrow> player_in_win_state (gs_board prev) p))"

text \<open>
  \<^verbatim>\<open>_check_moved_worker_before_build\<close>. Only a \<^verbatim>\<open>MoveTurn\<close> has \<^verbatim>\<open>end_x\<close> and
  \<^verbatim>\<open>end_y\<close>.
\<close>

definition check_moved_worker_before_build :: "game_manager \<Rightarrow> int \<Rightarrow> int \<Rightarrow> error option" where
  "check_moved_worker_before_build gm build_worker_x build_worker_y =
     (case previous_game_state gm of
        None \<Rightarrow> Some IllegalMoveError
      | Some prev \<Rightarrow>
          if gs_turn_action prev = MOVE
          then (case gs_turn prev of
                  MoveTurn c sx sy end_x end_y \<Rightarrow>
                    if (end_x, end_y) \<noteq> (build_worker_x, build_worker_y)
                    then Some IllegalMoveError else None
                | PlaceWorkerTurn c x y \<Rightarrow> Some AttributeError
                | BuildTurn c wx wy bx by' \<Rightarrow> Some AttributeError)
          else Some IllegalMoveError)"

text \<open>
  The end of \<^verbatim>\<open>update_game_state\<close>, from the win check on (lines 231 to 248), given the
  local \<^verbatim>\<open>in_loss_state_cant_build\<close>.
\<close>

definition finish_turn :: "bool \<Rightarrow> game_manager \<Rightarrow> error option \<times> game_manager" where
  "finish_turn in_loss_state_cant_build gm =
     (case check_win_state_board_win_state gm of
        Inl e \<Rightarrow> (Some e, gm)
      | Inr in_win_state \<Rightarrow>
          if in_win_state then (None, gm)
          else
            (let r = (case previous_game_state gm of
                        None \<Rightarrow> (None, gm)
                      | Some prev \<Rightarrow>
                          if gs_turn_action prev \<noteq> MOVE \<or> in_loss_state_cant_build
                          then change_active_player gm else (None, gm))
             in case fst r of
                  Some e \<Rightarrow> r
                | None \<Rightarrow>
                    if \<not> in_loss_state_cant_build
                    then change_current_turn_action (snd r) else r))"

text \<open>
  The three branches of \<^verbatim>\<open>update_game_state\<close>, for the active player \<open>p\<close>.

  The \<^verbatim>\<open>MOVE\<close> branch appends its snapshot and then calls
  \<^verbatim>\<open>board.player_in_loss_state_after_move\<close>. Class \<^verbatim>\<open>Board\<close> defines
  \<^verbatim>\<open>player_in_lose_state_after_move\<close> (modelled above) and no attribute of the name that is
  called, so the attribute lookup raises \<open>AttributeError\<close> before any argument is
  evaluated: the branch ends there, with the snapshot in the log and \<^verbatim>\<open>self.board\<close> not
  yet assigned.
\<close>

definition update_place :: "int list \<Rightarrow> color \<Rightarrow> game_manager \<Rightarrow> error option \<times> game_manager" where
  "update_place tc p gm =
     or_raise (getitem tc 0) gm (\<lambda>x.
     or_raise (getitem tc 1) gm (\<lambda>y.
     or_raise (place_worker (board gm) p x y) gm (\<lambda>b.
       finish_turn False
         (gm\<lparr>game_state_log := game_state_log gm @
                [\<lparr>gs_active_player = p, gs_board = b, gs_turn_action = PLACE_WORKER,
                  gs_turn = PlaceWorkerTurn p x y\<rparr>],
             board := b\<rparr>))))"

definition update_move :: "int list \<Rightarrow> color \<Rightarrow> game_manager \<Rightarrow> error option \<times> game_manager" where
  "update_move tc p gm =
     or_raise (getitem tc 0) gm (\<lambda>start_x.
     or_raise (getitem tc 1) gm (\<lambda>start_y.
     or_raise (getitem tc 2) gm (\<lambda>end_x.
     or_raise (getitem tc 3) gm (\<lambda>end_y.
     or_raise (move (board gm) p start_x start_y end_x end_y) gm (\<lambda>b.
       (Some AttributeError,
        gm\<lparr>game_state_log := game_state_log gm @
              [\<lparr>gs_active_player = p, gs_board = b, gs_turn_action = MOVE,
                gs_turn = MoveTurn p start_x start_y end_x end_y\<rparr>]\<rparr>))))))"

definition update_build :: "int list \<Rightarrow> color \<Rightarrow> game_manager \<Rightarrow> error option \<times> game_manager" where
  "update_build tc p gm =
     or_raise (getitem tc 0) gm (\<lambda>worker_x.
     or_raise (getitem tc 1) gm (\<lambda>worker_y.
       case check_moved_worker_before_build gm worker_x worker_y of
         Some e \<Rightarrow> (Some e, gm)
       | None \<Rightarrow>
           or_raise (getitem tc 2) gm (\<lambda>build_x.
           or_raise (getitem tc 3) gm (\<lambda>build_y.
           or_raise (build (board gm) p worker_x worker_y build_x build_y) gm (\<lambda>b.
             finish_turn False
               (gm\<lparr>game_state_log := game_state_log gm @
                      [\<lparr>gs_active_player = p, gs_board = b, gs_turn_action = BUILD,
                        gs_turn = BuildTurn p worker_x worker_y build_x build_y\<rparr>],
                   board := b\<rparr>))))))"

text \<open>
  \<^verbatim>\<open>update_game_state(turn_action, turn_coordinates, active_player)\<close>. The debug
  message at its top reads \<^verbatim>\<open>self.active_player\<close> first.
\<close>

definition update_game_state ::
  "turn_actions \<Rightarrow> int list \<Rightarrow> color option \<Rightarrow> game_manager
     \<Rightarrow> error option \<times> game_manager" where
  "update_game_state ta tc expected gm =
     or_raise (active_player gm) gm (\<lambda>p.
       if expected \<noteq> None \<and> expected \<noteq> Some p then (Some IllegalMoveError, gm)
       else
         or_raise (current_turn_action gm) gm (\<lambda>required.
           if ta \<noteq> required then (Some IllegalMoveError, gm)
           else (case ta of
                   PLACE_WORKER \<Rightarrow> update_place tc p gm
                 | MOVE \<Rightarrow> update_move tc p gm
                 | BUILD \<Rightarrow> update_build tc p gm)))"

text \<open>
  The end-of-turn checks of \<^verbatim>\<open>_in_end_game_state\<close>. Both loss checks call a method that
  class \<^verbatim>\<open>Board\<close> does not define (\<^verbatim>\<open>player_in_loss_state_after_move\<close>,
  \<^verbatim>\<open>player_in_loss_state_before_move\<close>; the class has \<^verbatim>\<open>player_in_lose_state_...\<close>), so
  each raises \<open>AttributeError\<close> as soon as its guard holds, and the removal of the player
  below the call is never reached.
\<close>

definition check_loss_state_player_cant_build :: "game_manager \<Rightarrow> error option \<times> game_manager" where
  "check_loss_state_player_cant_build gm =
     (case previous_game_state gm of
        None \<Rightarrow> (None, gm)
      | Some prev \<Rightarrow>
          if length (player_order gm) \<noteq> 1 \<and> gs_turn_action prev = MOVE
          then (Some AttributeError, gm)
          else (None, gm))"

definition check_loss_state_player_cant_move :: "game_manager \<Rightarrow> error option \<times> game_manager" where
  "check_loss_state_player_cant_move gm =
     (case previous_game_state gm of
        None \<Rightarrow> (None, gm)
      | Some prev \<Rightarrow>
          if length (player_order gm) \<noteq> 1
          then or_raise (current_turn_action gm) gm (\<lambda>required.
                 if required = MOVE then (Some AttributeError, gm) else (None, gm))
          else (None, gm))"

definition check_win_state_one_player_left :: "game_manager \<Rightarrow> bool" where
  "check_win_state_one_player_left gm = (length (player_order gm) = 1)"

definition in_end_game_state :: "game_manager \<Rightarrow> (error + bool) \<times> game_manager" where
  "in_end_game_state gm =
     (let r1 = check_loss_state_player_cant_build gm
      in case fst r1 of
           Some e \<Rightarrow> (Inl e, snd r1)
         | None \<Rightarrow>
             (let r2 = check_loss_state_player_cant_move (snd r1)
              in case fst r2 of
                   Some e \<Rightarrow> (Inl e, snd r2)
                 | None \<Rightarrow>
                     if check_win_state_one_player_left (snd r2) then (Inr True, snd r2)
                     else (check_win_state_board_win_state (snd r2), snd r2)))"

section \<open>Notions used to state the properties\<close>

text \<open>
  The grid of a board has the shape \<^verbatim>\<open>(length, width)\<close>: \<^verbatim>\<open>__init__\<close> and \<^verbatim>\<open>reset\<close>
  build it so, and no method changes the shape.
\<close>

definition board_wf :: "board \<Rightarrow> bool" where
  "board_wf b =
     (0 \<le> length_b b \<and> 0 \<le> width b
      \<and> length (board_blocks b) = nat (length_b b)
      \<and> list_all (\<lambda>row. length row = nat (width b)) (board_blocks b))"

text \<open>
  A call of one of the four mutators of \<^verbatim>\<open>Board\<close>, and a sequence of calls that stops
  at the first exception.
\<close>

datatype board_op =
    Place color int int
  | Move color int int int int
  | Build color int int int int
  | Reset

fun apply_op :: "board \<Rightarrow> board_op \<Rightarrow> error + board" where
  "apply_op b (Place c x y) = place_worker b c x y"
| "apply_op b (Move c sx sy ex ey) = move b c sx sy ex ey"
| "apply_op b (Build c wx wy bx by') = build b c wx wy bx by'"
| "apply_op b Reset = reset b"

fun run_ops :: "board \<Rightarrow> board_op list \<Rightarrow> error + board" where
  "run_ops b [] = Inr b"
| "run_ops b (a # as) =
     (case apply_op b a of Inl e \<Rightarrow> Inl e | Inr b' \<Rightarrow> run_ops b' as)"

definition run_from_fresh ::
  "int \<Rightarrow> int \<Rightarrow> int \<Rightarrow> int \<Rightarrow> board_op list \<Rightarrow> error + board" where
  "run_from_fresh l w mh mw ops =
     (case Board_init l w mh mw of Inl e \<Rightarrow> Inl e | Inr b \<Rightarrow> run_ops b ops)"

text \<open>
  Every worker stands on a cell of the grid, and its recorded height is the building
  height of that cell.
\<close>

definition heights_synced :: "board \<Rightarrow> bool" where
  "heights_synced b =
     list_all (\<lambda>w. is_on_board b (x_of w) (y_of w)
                  \<and> block_height b (x_of w) (y_of w) = Inr (height_of w))
              (workers b)"

text \<open>
  Every \<^verbatim>\<open>place_worker\<close> of the sequence, at the moment it runs, targets a cell of the
  grid on which nothing has been built.
\<close>

fun places_on_ground :: "board \<Rightarrow> board_op list \<Rightarrow> bool" where
  "places_on_ground b [] = True"
| "places_on_ground b (a # as) =
     ((case a of
         Place c x y \<Rightarrow> is_on_board b x y \<and> block_height b x y = Inr 0
       | Move c sx sy ex ey \<Rightarrow> True
       | Build c wx wy bx by' \<Rightarrow> True
       | Reset \<Rightarrow> True)
      \<and> (case apply_op b a of Inl e \<Rightarrow> True | Inr b' \<Rightarrow> places_on_ground b' as))"

text \<open>A board in mid-game, used to run the functions on concrete values.\<close>

definition example_board :: board where
  "example_board =
     \<lparr>length_b = 3, width = 3, max_height = 4, max_workers_per_player = 2,
      workers = [\<lparr>x_of = 0, y_of = 0, height_of = 0, color_of = BLUE\<rparr>,
                 \<lparr>x_of = 1, y_of = 1, height_of = 3, color_of = WHITE\<rparr>],
      board_blocks = [[0, 1, 0], [0, 3, 0], [0, 0, 0]]\<rparr>"

definition example_worker :: worker where
  "example_worker = \<lparr>x_of = 0, y_of = 0, height_of = 0, color_of = BLUE\<rparr>"


text \<open>
  The game of the sequence test: a 3 by 3 board, \<^verbatim>\<open>max_height\<close> 2, one worker per player,
  players Blue then White. Blue is placed at \<open>(0, 0)\<close>, White at \<open>(1, 1)\<close>, then Blue's
  move from \<open>(0, 0)\<close> to \<open>(1, 0)\<close> is applied.
\<close>

definition seq_board :: board where
  "seq_board =
     \<lparr>length_b = 3, width = 3, max_height = 2, max_workers_per_player = 1,
      workers = [], board_blocks = [[0, 0, 0], [0, 0, 0], [0, 0, 0]]\<rparr>"

definition seq_g0 :: game_manager where
  "seq_g0 = GameManager_init [BLUE, WHITE] seq_board"

definition seq_g1 :: game_manager where
  "seq_g1 = snd (update_game_state PLACE_WORKER [0, 0] (Some BLUE) seq_g0)"

definition seq_g2 :: game_manager where
  "seq_g2 = snd (update_game_state PLACE_WORKER [1, 1] (Some WHITE) seq_g1)"

definition seq_g3 :: game_manager where
  "seq_g3 = snd (update_game_state MOVE [0, 0, 1, 0] (Some BLUE) seq_g2)"

text \<open>
  A game on a board of one row and two columns, one worker per player: once both workers
  are placed, neither has a free neighbouring cell.
\<close>

definition stuck_board :: board where
  "stuck_board =
     \<lparr>length_b = 1, width = 2, max_height = 4, max_workers_per_player = 1,
      workers = [], board_blocks = [[0, 0]]\<rparr>"

definition stuck_g0 :: game_manager where
  "stuck_g0 = GameManager_init [BLUE, WHITE] stuck_board"

definition stuck_g1 :: game_manager where
  "stuck_g1 = snd (update_game_state PLACE_WORKER [0, 0] (Some BLUE) stuck_g0)"

definition stuck_g2 :: game_manager where
  "stuck_g2 = snd (update_game_state PLACE_WORKER [1, 0] (Some WHITE) stuck_g1)"


section \<open>Properties of the board\<close>


lemma getitem_in_range:
  "0 \<le> i \<Longrightarrow> i < int (length xs) \<Longrightarrow> getitem xs i = Inr (xs ! nat i)"
  by (simp add: getitem_def Let_def)

lemma getitem_InrD:
  "getitem xs i = Inr v \<Longrightarrow> 0 \<le> i \<Longrightarrow> nat i < length xs \<and> v = xs ! nat i"
  by (auto simp: getitem_def Let_def split: if_splits)

lemma block_height_wf:
  assumes "board_wf b" and "is_on_board b x y"
  shows "block_height b x y = Inr (board_blocks b ! nat y ! nat x)"
proof -
  from assms have y: "0 \<le> y" "y < int (length (board_blocks b))"
    by (auto simp: board_wf_def is_on_board_def)
  then have "board_blocks b ! nat y \<in> set (board_blocks b)" by simp
  with assms have "length (board_blocks b ! nat y) = nat (width b)"
    by (auto simp: board_wf_def list_all_iff)
  with assms have x: "0 \<le> x" "x < int (length (board_blocks b ! nat y))"
    by (auto simp: is_on_board_def)
  show ?thesis
    by (simp add: block_height_def getitem_in_range y x)
qed

lemma block_height_InrD:
  assumes "block_height b x y = Inr h" and "0 \<le> x" and "0 \<le> y"
  shows "nat y < length (board_blocks b) \<and> nat x < length (board_blocks b ! nat y)
         \<and> h = board_blocks b ! nat y ! nat x"
proof -
  from assms(1) obtain row where r: "getitem (board_blocks b) y = Inr row" and c: "getitem row x = Inr h"
    by (auto simp: block_height_def split: sum.splits)
  from getitem_InrD[OF r assms(3)] getitem_InrD[OF c assms(2)] show ?thesis by simp
qed

lemma neighboring_shifts_iff:
  "(dx, dy) \<in> set neighboring_shifts \<longleftrightarrow> (dx, dy) \<noteq> (0, 0) \<and> \<bar>dx\<bar> \<le> 1 \<and> \<bar>dy\<bar> \<le> 1"
proof -
  have "\<bar>dx\<bar> \<le> 1 \<longleftrightarrow> dx = 0 \<or> dx = - 1 \<or> dx = 1" by arith
  moreover have "\<bar>dy\<bar> \<le> 1 \<longleftrightarrow> dy = 0 \<or> dy = - 1 \<or> dy = 1" by arith
  moreover have "(dx, dy) \<in> set neighboring_shifts \<longleftrightarrow>
     (dx, dy) \<noteq> (0, 0) \<and> (dx = 0 \<or> dx = - 1 \<or> dx = 1) \<and> (dy = 0 \<or> dy = - 1 \<or> dy = 1)"
    unfolding neighboring_shifts_def by (simp; presburger)
  ultimately show ?thesis by (simp; presburger)
qed

lemma worker_on_space_iff:
  "worker_on_space b x y \<longleftrightarrow> (\<exists>w \<in> set (workers b). x_of w = x \<and> y_of w = y)"
  by (simp add: worker_on_space_def list_ex_iff)

lemma filter_res_sound:
  "filter_res p xs = Inr ys \<Longrightarrow> a \<in> set ys \<Longrightarrow> a \<in> set xs \<and> p a = Inr True"
proof (induction xs arbitrary: ys)
  case Nil
  then show ?case by simp
next
  case (Cons x xs)
  then show ?case
    by (auto split: sum.splits if_splits)
qed

lemma filter_res_total:
  "(\<And>a. a \<in> set xs \<Longrightarrow> p a = Inr (q a)) \<Longrightarrow> filter_res p xs = Inr (filter q xs)"
  by (induction xs) auto

lemma is_valid_move_TrueD:
  assumes "is_valid_move b w x y = Inr True"
  shows "is_on_board b x y \<and> \<not> worker_on_space b x y \<and> is_neighboring_space w x y
         \<and> (\<exists>h. block_height b x y = Inr h \<and> h < max_height b \<and> h \<le> height_of w + 1)"
  using assms by (auto simp: is_valid_move_def split: if_splits sum.splits)

lemma is_valid_build_TrueD:
  assumes "is_valid_build b w x y = Inr True"
  shows "is_on_board b x y \<and> \<not> worker_on_space b x y \<and> is_neighboring_space w x y
         \<and> (\<exists>h. block_height b x y = Inr h \<and> h < max_height b)"
  using assms by (auto simp: is_valid_build_def split: if_splits sum.splits)

lemma is_valid_move_wf:
  "board_wf b \<Longrightarrow> \<exists>v. is_valid_move b w x y = Inr v"
  by (auto simp: is_valid_move_def block_height_wf)

lemma is_valid_build_wf:
  "board_wf b \<Longrightarrow> \<exists>v. is_valid_build b w x y = Inr v"
  by (auto simp: is_valid_build_def block_height_wf)

lemma filter_res_defined:
  "(\<And>a. a \<in> set xs \<Longrightarrow> \<exists>v. p a = Inr v) \<Longrightarrow> \<exists>ys. filter_res p xs = Inr ys"
proof (induction xs)
  case Nil
  then show ?case by simp
next
  case (Cons x xs)
  then obtain v ys where "p x = Inr v" "filter_res p xs = Inr ys" by fastforce
  then show ?case by simp
qed

lemma get_valid_moves_wf:
  "board_wf b \<Longrightarrow> \<exists>ms. get_valid_moves b w = Inr ms"
proof -
  assume wf: "board_wf b"
  have "\<exists>ys. filter_res (\<lambda>xy. is_valid_move b w (fst xy) (snd xy))
          (map (\<lambda>s. (x_of w + fst s, y_of w + snd s)) neighboring_shifts) = Inr ys"
    by (rule filter_res_defined) (simp add: is_valid_move_wf[OF wf])
  then show ?thesis by (auto simp: get_valid_moves_def Let_def)
qed

lemma get_valid_builds_wf:
  "board_wf b \<Longrightarrow> \<exists>ms. get_valid_builds b w = Inr ms"
proof -
  assume wf: "board_wf b"
  have "\<exists>ys. filter_res (\<lambda>xy. is_valid_build b w (fst xy) (snd xy))
          (map (\<lambda>s. (x_of w + fst s, y_of w + snd s)) neighboring_shifts) = Inr ys"
    by (rule filter_res_defined) (simp add: is_valid_build_wf[OF wf])
  then show ?thesis by (auto simp: get_valid_builds_def Let_def)
qed

lemma neighbor_explicit:
  "is_neighboring_space w x y \<longleftrightarrow>
     (x, y) \<noteq> (x_of w, y_of w) \<and> \<bar>x - x_of w\<bar> \<le> 1 \<and> \<bar>y - y_of w\<bar> \<le> 1"
  by (simp add: is_neighboring_space_def neighboring_shifts_iff)

text \<open>The defining equations that evaluate the board functions on concrete values.\<close>

lemmas board_eval =
  getitem_def block_height_def is_on_board_def worker_on_space_def is_neighboring_space_def
  neighboring_shifts_def is_valid_move_def is_valid_build_def get_valid_moves_def
  get_valid_builds_def num_workers_def player_can_place_workers_def
  get_workers_with_color_def get_worker_at_def get_worker_index_def
  place_worker_def move_def build_def reset_def Worker_move_def Board_init_def
  player_in_win_state_def Let_def

text \<open>
  Claim C7. Every target that \<^verbatim>\<open>get_valid_moves\<close> or \<^verbatim>\<open>get_valid_builds\<close> returns for a
  worker lies inside the grid, is occupied by no worker, is one of the eight neighbours of
  the worker's cell, and has a building height below \<^verbatim>\<open>max_height\<close>; a move target is
  moreover at most one level above the worker. On a board whose grid has its proper shape
  both functions do return a list.
\<close>

theorem valid_moves_and_builds_sound:
  "(\<forall>ms. get_valid_moves b w = Inr ms \<longrightarrow>
      (\<forall>m \<in> set ms. \<exists>ex ey h.
          m = MoveTurn (color_of w) (x_of w) (y_of w) ex ey
        \<and> 0 \<le> ex \<and> ex < width b \<and> 0 \<le> ey \<and> ey < length_b b
        \<and> (\<forall>w' \<in> set (workers b). \<not> (x_of w' = ex \<and> y_of w' = ey))
        \<and> (ex, ey) \<noteq> (x_of w, y_of w) \<and> \<bar>ex - x_of w\<bar> \<le> 1 \<and> \<bar>ey - y_of w\<bar> \<le> 1
        \<and> block_height b ex ey = Inr h \<and> h < max_height b \<and> h \<le> height_of w + 1))
   \<and> (\<forall>bs. get_valid_builds b w = Inr bs \<longrightarrow>
      (\<forall>m \<in> set bs. \<exists>ex ey h.
          m = BuildTurn (color_of w) (x_of w) (y_of w) ex ey
        \<and> 0 \<le> ex \<and> ex < width b \<and> 0 \<le> ey \<and> ey < length_b b
        \<and> (\<forall>w' \<in> set (workers b). \<not> (x_of w' = ex \<and> y_of w' = ey))
        \<and> (ex, ey) \<noteq> (x_of w, y_of w) \<and> \<bar>ex - x_of w\<bar> \<le> 1 \<and> \<bar>ey - y_of w\<bar> \<le> 1
        \<and> block_height b ex ey = Inr h \<and> h < max_height b))
   \<and> (board_wf b \<longrightarrow> (\<exists>ms. get_valid_moves b w = Inr ms) \<and> (\<exists>bs. get_valid_builds b w = Inr bs))"
proof (intro conjI allI impI ballI)
  fix ms m
  assume gm: "get_valid_moves b w = Inr ms" and m: "m \<in> set ms"
  from gm obtain cs where
    cs: "filter_res (\<lambda>xy. is_valid_move b w (fst xy) (snd xy))
           (map (\<lambda>s. (x_of w + fst s, y_of w + snd s)) neighboring_shifts) = Inr cs"
    and ms: "ms = map (\<lambda>c. MoveTurn (color_of w) (x_of w) (y_of w) (fst c) (snd c)) cs"
    by (auto simp: get_valid_moves_def Let_def split: sum.splits)
  from m ms obtain c where c: "c \<in> set cs"
    and mc: "m = MoveTurn (color_of w) (x_of w) (y_of w) (fst c) (snd c)" by auto
  from filter_res_sound[OF cs c] have "is_valid_move b w (fst c) (snd c) = Inr True" by simp
  from is_valid_move_TrueD[OF this] mc
  show "\<exists>ex ey h.
          m = MoveTurn (color_of w) (x_of w) (y_of w) ex ey
        \<and> 0 \<le> ex \<and> ex < width b \<and> 0 \<le> ey \<and> ey < length_b b
        \<and> (\<forall>w' \<in> set (workers b). \<not> (x_of w' = ex \<and> y_of w' = ey))
        \<and> (ex, ey) \<noteq> (x_of w, y_of w) \<and> \<bar>ex - x_of w\<bar> \<le> 1 \<and> \<bar>ey - y_of w\<bar> \<le> 1
        \<and> block_height b ex ey = Inr h \<and> h < max_height b \<and> h \<le> height_of w + 1"
    unfolding neighbor_explicit worker_on_space_iff is_on_board_def by blast
next
  fix bs m
  assume gb: "get_valid_builds b w = Inr bs" and m: "m \<in> set bs"
  from gb obtain cs where
    cs: "filter_res (\<lambda>xy. is_valid_build b w (fst xy) (snd xy))
           (map (\<lambda>s. (x_of w + fst s, y_of w + snd s)) neighboring_shifts) = Inr cs"
    and bs: "bs = map (\<lambda>c. BuildTurn (color_of w) (x_of w) (y_of w) (fst c) (snd c)) cs"
    by (auto simp: get_valid_builds_def Let_def split: sum.splits)
  from m bs obtain c where c: "c \<in> set cs"
    and mc: "m = BuildTurn (color_of w) (x_of w) (y_of w) (fst c) (snd c)" by auto
  from filter_res_sound[OF cs c] have "is_valid_build b w (fst c) (snd c) = Inr True" by simp
  from is_valid_build_TrueD[OF this] mc
  show "\<exists>ex ey h.
          m = BuildTurn (color_of w) (x_of w) (y_of w) ex ey
        \<and> 0 \<le> ex \<and> ex < width b \<and> 0 \<le> ey \<and> ey < length_b b
        \<and> (\<forall>w' \<in> set (workers b). \<not> (x_of w' = ex \<and> y_of w' = ey))
        \<and> (ex, ey) \<noteq> (x_of w, y_of w) \<and> \<bar>ex - x_of w\<bar> \<le> 1 \<and> \<bar>ey - y_of w\<bar> \<le> 1
        \<and> block_height b ex ey = Inr h \<and> h < max_height b"
    unfolding neighbor_explicit worker_on_space_iff is_on_board_def by blast
next
  assume "board_wf b"
  then show "\<exists>ms. get_valid_moves b w = Inr ms" by (rule get_valid_moves_wf)
next
  assume "board_wf b"
  then show "\<exists>bs. get_valid_builds b w = Inr bs" by (rule get_valid_builds_wf)
qed

theorem valid_moves_and_builds_sound_witness:
  "get_valid_moves example_board example_worker = Inr [MoveTurn BLUE 0 0 0 1, MoveTurn BLUE 0 0 1 0]
   \<and> get_valid_builds example_board example_worker
       = Inr [BuildTurn BLUE 0 0 0 1, BuildTurn BLUE 0 0 1 0]
   \<and> board_wf example_board
   \<and> (\<exists>ex ey h.
          MoveTurn BLUE 0 0 1 0 = MoveTurn BLUE 0 0 ex ey
        \<and> 0 \<le> ex \<and> ex < 3 \<and> 0 \<le> ey \<and> ey < 3
        \<and> (\<forall>w' \<in> set (workers example_board). \<not> (x_of w' = ex \<and> y_of w' = ey))
        \<and> (ex, ey) \<noteq> (0, 0) \<and> \<bar>ex - 0\<bar> \<le> 1 \<and> \<bar>ey - 0\<bar> \<le> 1
        \<and> block_height example_board ex ey = Inr h \<and> h < 4 \<and> h \<le> 0 + 1)"
proof -
  have m: "get_valid_moves example_board example_worker
             = Inr [MoveTurn BLUE 0 0 0 1, MoveTurn BLUE 0 0 1 0]"
    by (simp add: example_board_def example_worker_def board_eval)
  have b: "get_valid_builds example_board example_worker
             = Inr [BuildTurn BLUE 0 0 0 1, BuildTurn BLUE 0 0 1 0]"
    by (simp add: example_board_def example_worker_def board_eval)
  have wf: "board_wf example_board"
    by (simp add: example_board_def board_wf_def)
  have "\<exists>ex ey h.
          MoveTurn BLUE 0 0 1 0
            = MoveTurn (color_of example_worker) (x_of example_worker) (y_of example_worker) ex ey
        \<and> 0 \<le> ex \<and> ex < width example_board \<and> 0 \<le> ey \<and> ey < length_b example_board
        \<and> (\<forall>w' \<in> set (workers example_board). \<not> (x_of w' = ex \<and> y_of w' = ey))
        \<and> (ex, ey) \<noteq> (x_of example_worker, y_of example_worker)
        \<and> \<bar>ex - x_of example_worker\<bar> \<le> 1 \<and> \<bar>ey - y_of example_worker\<bar> \<le> 1
        \<and> block_height example_board ex ey = Inr h \<and> h < max_height example_board
        \<and> h \<le> height_of example_worker + 1"
    using valid_moves_and_builds_sound [of example_board example_worker, THEN conjunct1,
        rule_format, OF m, of "MoveTurn BLUE 0 0 1 0"]
    by simp
  then have "\<exists>ex ey h.
          MoveTurn BLUE 0 0 1 0 = MoveTurn BLUE 0 0 ex ey
        \<and> 0 \<le> ex \<and> ex < 3 \<and> 0 \<le> ey \<and> ey < 3
        \<and> (\<forall>w' \<in> set (workers example_board). \<not> (x_of w' = ex \<and> y_of w' = ey))
        \<and> (ex, ey) \<noteq> (0, 0) \<and> \<bar>ex - 0\<bar> \<le> 1 \<and> \<bar>ey - 0\<bar> \<le> 1
        \<and> block_height example_board ex ey = Inr h \<and> h < 4 \<and> h \<le> 0 + 1"
    by (simp add: example_worker_def) (simp add: example_board_def)
  with m b wf show ?thesis by blast
qed

lemma length_filter_conj:
  "filter (\<lambda>w. height_of w = h) (filter (\<lambda>w. color_of w = c) ws)
   = filter (\<lambda>w. color_of w = c \<and> height_of w = h) ws"
  by (induction ws) auto

text \<open>
  Claim C6. \<^verbatim>\<open>player_in_win_state\<close> returns true exactly when one worker of the player
  has recorded height \<^verbatim>\<open>max_height - 1\<close>, false when none has, and raises
  \<open>IllegalBoardStateError\<close> exactly when more than one has.
\<close>

theorem player_in_win_state_cases:
  fixes b :: board and c :: color
  defines "n \<equiv> length (filter (\<lambda>w. color_of w = c \<and> height_of w = max_height b - 1) (workers b))"
  shows "(player_in_win_state b c = Inr True \<longleftrightarrow> n = 1)
       \<and> (n = 0 \<longrightarrow> player_in_win_state b c = Inr False)
       \<and> (n > 1 \<longrightarrow> player_in_win_state b c = Inl IllegalBoardStateError)
       \<and> (player_in_win_state b c = Inl IllegalBoardStateError \<longleftrightarrow> n > 1)"
  unfolding n_def player_in_win_state_def get_workers_with_color_def
  by (simp add: length_filter_conj Let_def)

theorem player_in_win_state_cases_witness:
  "player_in_win_state example_board WHITE = Inr True
   \<and> length (filter (\<lambda>w. color_of w = WHITE \<and> height_of w = max_height example_board - 1)
               (workers example_board)) = 1
   \<and> player_in_win_state example_board BLUE = Inr False
   \<and> player_in_win_state
        (example_board\<lparr>workers := workers example_board
                          @ [\<lparr>x_of = 2, y_of = 2, height_of = 3, color_of = WHITE\<rparr>]\<rparr>) WHITE
       = Inl IllegalBoardStateError"
  using player_in_win_state_cases [of example_board WHITE]
        player_in_win_state_cases [of example_board BLUE]
        player_in_win_state_cases
          [of "example_board\<lparr>workers := workers example_board
                          @ [\<lparr>x_of = 2, y_of = 2, height_of = 3, color_of = WHITE\<rparr>]\<rparr>" WHITE]
  by (simp add: example_board_def)

lemma sum_list_indicator:
  "sum_list (map (\<lambda>w. if P w then 1 else 0) ws) = int (length (filter P ws))"
  by (induction ws) auto

lemma num_workers_count:
  "num_workers b c = int (length (filter (\<lambda>w. color_of w = c) (workers b)))"
  unfolding num_workers_def by (rule sum_list_indicator)

text \<open>
  Claim C10. \<^verbatim>\<open>place_worker\<close> checks no bounds: for a player below the worker cap and
  coordinates that no worker occupies it succeeds and appends a worker of height 0 at those
  coordinates, wherever they lie, while \<^verbatim>\<open>is_valid_placement\<close> is false for every
  coordinate outside the grid.
\<close>

theorem place_worker_no_bounds_check:
  assumes "num_workers b c < max_workers_per_player b"
      and "\<not> worker_on_space b x y"
  shows "place_worker b c x y
           = Inr (b\<lparr>workers := workers b @ [\<lparr>x_of = x, y_of = y, height_of = 0, color_of = c\<rparr>]\<rparr>)
       \<and> (\<not> is_on_board b x y \<longrightarrow> is_valid_placement b c x y = False)"
  using assms by (simp add: place_worker_def player_can_place_workers_def is_valid_placement_def)

theorem place_worker_no_bounds_check_witness:
  "num_workers example_board BLUE < max_workers_per_player example_board
   \<and> \<not> worker_on_space example_board 7 (- 2)
   \<and> \<not> is_on_board example_board 7 (- 2)
   \<and> place_worker example_board BLUE 7 (- 2)
       = Inr (example_board\<lparr>workers := workers example_board
                @ [\<lparr>x_of = 7, y_of = - 2, height_of = 0, color_of = BLUE\<rparr>]\<rparr>)
   \<and> is_valid_placement example_board BLUE 7 (- 2) = False"
proof -
  have h1: "num_workers example_board BLUE < max_workers_per_player example_board"
    by (simp add: example_board_def num_workers_def)
  have h2: "\<not> worker_on_space example_board 7 (- 2)"
    by (simp add: example_board_def worker_on_space_def)
  have h3: "\<not> is_on_board example_board 7 (- 2)"
    by (simp add: example_board_def is_on_board_def)
  from place_worker_no_bounds_check [OF h1 h2] h1 h2 h3 show ?thesis by simp
qed

lemma worker_index_SomeD:
  "worker_index ws x y = Some i \<Longrightarrow>
     i < length ws \<and> x_of (ws ! i) = x \<and> y_of (ws ! i) = y
     \<and> (\<forall>j < i. \<not> (x_of (ws ! j) = x \<and> y_of (ws ! j) = y))"
proof (induction ws arbitrary: i)
  case Nil
  then show ?case by simp
next
  case (Cons w ws)
  show ?case
  proof (cases "x_of w = x \<and> y_of w = y")
    case True
    with Cons.prems show ?thesis by simp
  next
    case False
    with Cons.prems obtain k where k: "worker_index ws x y = Some k" "i = Suc k" by auto
    from Cons.IH[OF k(1)] False k(2) show ?thesis
      by (auto simp: less_Suc_eq_0_disj)
  qed
qed

lemma find_update_fresh:
  assumes "i < length ws" and "P v" and "\<forall>w \<in> set ws. \<not> P w"
  shows "find P (ws[i := v]) = Some v"
  using assms
proof (induction ws arbitrary: i)
  case Nil
  then show ?case by simp
next
  case (Cons w ws)
  then show ?case by (cases i) auto
qed

text \<open>
  Claim C8. After a successful \<^verbatim>\<open>Board.move\<close> the recorded height of the moved worker is
  the height that the destination cell had before the move, and the grid of building
  heights is the one from before the move.
\<close>

theorem move_sets_height_of_destination:
  assumes "move b c sx sy ex ey = Inr b'"
  shows "board_blocks b' = board_blocks b
       \<and> (\<exists>i h. get_worker_index b sx sy = Inr i \<and> i < length (workers b)
             \<and> block_height b ex ey = Inr h
             \<and> workers b' = (workers b)[i := \<lparr>x_of = ex, y_of = ey, height_of = h, color_of = c\<rparr>]
             \<and> get_worker_at b' ex ey = Inr \<lparr>x_of = ex, y_of = ey, height_of = h, color_of = c\<rparr>)"
proof -
  from assms obtain i where i: "get_worker_index b sx sy = Inr i"
    by (auto simp: move_def split: sum.splits)
  then have wi: "worker_index (workers b) sx sy = Some i"
    by (auto simp: get_worker_index_def split: option.splits)
  from worker_index_SomeD[OF wi] have il: "i < length (workers b)" by simp
  from assms i have col: "color_of (workers b ! i) = c"
    by (auto simp: move_def split: if_splits)
  from assms i col have ok: "is_valid_move b (workers b ! i) ex ey = Inr True"
    by (auto simp: move_def split: sum.splits if_splits)
  from assms i col ok obtain h where h: "block_height b ex ey = Inr h"
    and b': "b' = b\<lparr>workers := (workers b)[i := Worker_move (workers b ! i) ex ey (Some h)]\<rparr>"
    by (auto simp: move_def split: sum.splits)
  have wm: "Worker_move (workers b ! i) ex ey (Some h)
              = \<lparr>x_of = ex, y_of = ey, height_of = h, color_of = c\<rparr>"
    using col by (simp add: Worker_move_def Let_def)
  from is_valid_move_TrueD[OF ok] have free: "\<forall>w \<in> set (workers b). \<not> (x_of w = ex \<and> y_of w = ey)"
    by (simp add: worker_on_space_iff)
  have "find (\<lambda>w. x_of w = ex \<and> y_of w = ey)
          ((workers b)[i := \<lparr>x_of = ex, y_of = ey, height_of = h, color_of = c\<rparr>])
        = Some \<lparr>x_of = ex, y_of = ey, height_of = h, color_of = c\<rparr>"
    by (rule find_update_fresh) (use il free in auto)
  then have "get_worker_at b' ex ey = Inr \<lparr>x_of = ex, y_of = ey, height_of = h, color_of = c\<rparr>"
    by (simp add: get_worker_at_def b' wm)
  with i il h b' wm show ?thesis by simp
qed

theorem move_sets_height_of_destination_witness:
  "move example_board BLUE 0 0 1 0
     = Inr (example_board\<lparr>workers :=
              [\<lparr>x_of = 1, y_of = 0, height_of = 1, color_of = BLUE\<rparr>,
               \<lparr>x_of = 1, y_of = 1, height_of = 3, color_of = WHITE\<rparr>]\<rparr>)
   \<and> block_height example_board 1 0 = Inr 1
   \<and> get_worker_at (example_board\<lparr>workers :=
              [\<lparr>x_of = 1, y_of = 0, height_of = 1, color_of = BLUE\<rparr>,
               \<lparr>x_of = 1, y_of = 1, height_of = 3, color_of = WHITE\<rparr>]\<rparr>) 1 0
       = Inr \<lparr>x_of = 1, y_of = 0, height_of = 1, color_of = BLUE\<rparr>"
proof -
  have m: "move example_board BLUE 0 0 1 0
     = Inr (example_board\<lparr>workers :=
              [\<lparr>x_of = 1, y_of = 0, height_of = 1, color_of = BLUE\<rparr>,
               \<lparr>x_of = 1, y_of = 1, height_of = 3, color_of = WHITE\<rparr>]\<rparr>)"
    by (simp add: example_board_def board_eval)
  have h: "block_height example_board 1 0 = Inr 1"
    by (simp add: example_board_def board_eval)
  from move_sets_height_of_destination [OF m] h m show ?thesis by auto
qed


section \<open>Worker heights and building heights\<close>


lemma move_InrD:
  assumes "move b c sx sy ex ey = Inr b'"
  shows "\<exists>i h. worker_index (workers b) sx sy = Some i
           \<and> color_of (workers b ! i) = c
           \<and> is_valid_move b (workers b ! i) ex ey = Inr True
           \<and> block_height b ex ey = Inr h
           \<and> b' = b\<lparr>workers := (workers b)
                     [i := \<lparr>x_of = ex, y_of = ey, height_of = h, color_of = c\<rparr>]\<rparr>"
proof -
  from assms obtain i where i: "get_worker_index b sx sy = Inr i"
    by (auto simp: move_def split: sum.splits)
  then have wi: "worker_index (workers b) sx sy = Some i"
    by (auto simp: get_worker_index_def split: option.splits)
  from assms i have col: "color_of (workers b ! i) = c"
    by (auto simp: move_def split: if_splits)
  from assms i col have ok: "is_valid_move b (workers b ! i) ex ey = Inr True"
    by (auto simp: move_def split: sum.splits if_splits)
  from assms i col ok obtain h where h: "block_height b ex ey = Inr h"
    and b': "b' = b\<lparr>workers := (workers b)[i := Worker_move (workers b ! i) ex ey (Some h)]\<rparr>"
    by (auto simp: move_def split: sum.splits)
  have "Worker_move (workers b ! i) ex ey (Some h)
          = \<lparr>x_of = ex, y_of = ey, height_of = h, color_of = c\<rparr>"
    using col by (simp add: Worker_move_def Let_def)
  with wi col ok h b' show ?thesis by simp
qed

lemma build_InrD:
  assumes "build b c wx wy bx by' = Inr b'"
  shows "\<exists>w. get_worker_at b wx wy = Inr w \<and> color_of w = c
           \<and> is_valid_build b w bx by' = Inr True
           \<and> b' = b\<lparr>board_blocks := (board_blocks b)
                     [nat by' := (board_blocks b ! nat by')
                        [nat bx := board_blocks b ! nat by' ! nat bx + 1]]\<rparr>"
  using assms by (auto simp: build_def split: sum.splits if_splits)

lemma place_worker_InrD:
  assumes "place_worker b c x y = Inr b'"
  shows "b' = b\<lparr>workers := workers b @ [\<lparr>x_of = x, y_of = y, height_of = 0, color_of = c\<rparr>]\<rparr>"
  using assms by (auto simp: place_worker_def split: if_splits)

lemma reset_InrD:
  assumes "reset b = Inr b'"
  shows "0 \<le> length_b b \<and> 0 \<le> width b
       \<and> b' = b\<lparr>workers := [],
                 board_blocks := replicate (nat (length_b b)) (replicate (nat (width b)) 0)\<rparr>"
  using assms by (auto simp: reset_def split: if_splits)

lemma block_height_workers_upd [simp]:
  "block_height (b\<lparr>workers := ws\<rparr>) x y = block_height b x y"
  by (simp add: block_height_def)

lemma is_on_board_workers_upd [simp]:
  "is_on_board (b\<lparr>workers := ws\<rparr>) x y = is_on_board b x y"
  by (simp add: is_on_board_def)

lemma is_on_board_blocks_upd [simp]:
  "is_on_board (b\<lparr>board_blocks := bb\<rparr>) x y = is_on_board b x y"
  by (simp add: is_on_board_def)

lemma board_wf_workers_upd [simp]:
  "board_wf (b\<lparr>workers := ws\<rparr>) = board_wf b"
  by (simp add: board_wf_def)

lemma board_wf_fresh:
  "Board_init l w mh mw = Inr b \<Longrightarrow> board_wf b \<and> workers b = []"
  by (auto simp: Board_init_def board_wf_def list_all_iff split: if_splits)

lemma board_wf_build_upd:
  assumes "board_wf b"
  shows "board_wf (b\<lparr>board_blocks := (board_blocks b)
                     [j := (board_blocks b ! j)[i := v]]\<rparr>)"
proof (cases "j < length (board_blocks b)")
  case True
  then have "board_blocks b ! j \<in> set (board_blocks b)" by simp
  with assms have "length ((board_blocks b ! j)[i := v]) = nat (width b)"
    by (simp add: board_wf_def list_all_iff)
  moreover have "set ((board_blocks b)[j := (board_blocks b ! j)[i := v]])
                 \<subseteq> insert ((board_blocks b ! j)[i := v]) (set (board_blocks b))"
    by (rule set_update_subset_insert)
  ultimately show ?thesis using assms
    by (auto simp: board_wf_def list_all_iff)
next
  case False
  with assms show ?thesis by (simp add: list_update_beyond)
qed

lemma block_height_build_other:
  assumes wf: "board_wf b" and on: "is_on_board b x y" and ne: "(x, y) \<noteq> (bx, by')"
      and onb: "is_on_board b bx by'"
  shows "block_height (b\<lparr>board_blocks := (board_blocks b)
                     [nat by' := (board_blocks b ! nat by')[nat bx := v]]\<rparr>) x y
         = block_height b x y"
proof -
  let ?b' = "b\<lparr>board_blocks := (board_blocks b)
                     [nat by' := (board_blocks b ! nat by')[nat bx := v]]\<rparr>"
  have wf': "board_wf ?b'" by (rule board_wf_build_upd[OF wf])
  have on': "is_on_board ?b' x y" using on by simp
  from on wf have yl: "nat y < length (board_blocks b)"
    by (auto simp: is_on_board_def board_wf_def)
  have "board_blocks ?b' ! nat y ! nat x = board_blocks b ! nat y ! nat x"
  proof (cases "nat y = nat by'")
    case True
    with on onb have "y = by'" unfolding is_on_board_def by arith
    with ne have "x \<noteq> bx" by simp
    with on onb have "nat x \<noteq> nat bx" unfolding is_on_board_def by arith
    with True yl show ?thesis by simp
  next
    case False
    then show ?thesis by simp
  qed
  with block_height_wf[OF wf' on'] block_height_wf[OF wf on] show ?thesis by simp
qed

lemma heights_synced_iff:
  "heights_synced b \<longleftrightarrow>
     (\<forall>w \<in> set (workers b). is_on_board b (x_of w) (y_of w)
          \<and> block_height b (x_of w) (y_of w) = Inr (height_of w))"
  by (simp add: heights_synced_def list_all_iff)

lemma apply_op_keeps_sync:
  assumes inv: "board_wf b \<and> heights_synced b"
      and ap: "apply_op b a = Inr b'"
      and ground: "case a of Place c x y \<Rightarrow> is_on_board b x y \<and> block_height b x y = Inr 0
                   | Move c sx sy ex ey \<Rightarrow> True | Build c wx wy bx by' \<Rightarrow> True | Reset \<Rightarrow> True"
  shows "board_wf b' \<and> heights_synced b'"
proof (cases a)
  case (Place c x y)
  with ap have "b' = b\<lparr>workers := workers b @ [\<lparr>x_of = x, y_of = y, height_of = 0, color_of = c\<rparr>]\<rparr>"
    by (simp add: place_worker_InrD)
  with inv ground Place show ?thesis
    by (auto simp: heights_synced_iff)
next
  case (Move c sx sy ex ey)
  with ap move_InrD obtain i h where
    ok: "is_valid_move b (workers b ! i) ex ey = Inr True"
    and h: "block_height b ex ey = Inr h"
    and b': "b' = b\<lparr>workers := (workers b)
                     [i := \<lparr>x_of = ex, y_of = ey, height_of = h, color_of = c\<rparr>]\<rparr>"
    by (metis apply_op.simps(2))
  from is_valid_move_TrueD[OF ok] have on: "is_on_board b ex ey" by simp
  have "set ((workers b)[i := \<lparr>x_of = ex, y_of = ey, height_of = h, color_of = c\<rparr>])
          \<subseteq> insert \<lparr>x_of = ex, y_of = ey, height_of = h, color_of = c\<rparr> (set (workers b))"
    by (rule set_update_subset_insert)
  with inv on h b' show ?thesis
    by (auto simp: heights_synced_iff)
next
  case (Build c wx wy bx by')
  with ap build_InrD obtain w where
    ok: "is_valid_build b w bx by' = Inr True"
    and b': "b' = b\<lparr>board_blocks := (board_blocks b)
                     [nat by' := (board_blocks b ! nat by')
                        [nat bx := board_blocks b ! nat by' ! nat bx + 1]]\<rparr>"
    by (metis apply_op.simps(3))
  from is_valid_build_TrueD[OF ok] have on: "is_on_board b bx by'"
    and free: "\<not> worker_on_space b bx by'" by simp_all
  from inv have wf: "board_wf b" by simp
  have wf': "board_wf b'" unfolding b' by (rule board_wf_build_upd[OF wf])
  have "heights_synced b'"
    unfolding heights_synced_iff
  proof
    fix w' assume w': "w' \<in> set (workers b')"
    then have wb: "w' \<in> set (workers b)" by (simp add: b')
    with inv have onw: "is_on_board b (x_of w') (y_of w')"
      and hw: "block_height b (x_of w') (y_of w') = Inr (height_of w')"
      by (simp_all add: heights_synced_iff)
    from free wb have ne: "(x_of w', y_of w') \<noteq> (bx, by')"
      by (auto simp: worker_on_space_iff)
    from block_height_build_other[OF wf onw ne on] hw onw
    show "is_on_board b' (x_of w') (y_of w')
          \<and> block_height b' (x_of w') (y_of w') = Inr (height_of w')"
      by (simp add: b')
  qed
  with wf' show ?thesis by simp
next
  case Reset
  with ap reset_InrD have nn: "0 \<le> length_b b \<and> 0 \<le> width b"
    and b': "b' = b\<lparr>workers := [],
                 board_blocks := replicate (nat (length_b b)) (replicate (nat (width b)) 0)\<rparr>"
    by (metis apply_op.simps(4))+
  then show ?thesis
    by (auto simp: board_wf_def heights_synced_def list_all_iff)
qed

lemma run_ops_keeps_sync:
  "board_wf b0 \<and> heights_synced b0 \<Longrightarrow> run_ops b0 ops = Inr b \<Longrightarrow> places_on_ground b0 ops
     \<Longrightarrow> board_wf b \<and> heights_synced b"
proof (induction ops arbitrary: b0)
  case Nil
  then show ?case by simp
next
  case (Cons a ops)
  from Cons.prems(2) obtain b1 where b1: "apply_op b0 a = Inr b1" and rest: "run_ops b1 ops = Inr b"
    by (auto split: sum.splits)
  from Cons.prems(3) b1 have g: "case a of Place c x y \<Rightarrow> is_on_board b0 x y \<and> block_height b0 x y = Inr 0
                   | Move c sx sy ex ey \<Rightarrow> True | Build c wx wy bx by' \<Rightarrow> True | Reset \<Rightarrow> True"
    and gr: "places_on_ground b1 ops" by simp_all
  from apply_op_keeps_sync[OF Cons.prems(1) b1 g] have "board_wf b1 \<and> heights_synced b1" .
  from Cons.IH[OF this rest gr] show ?case .
qed

text \<open>
  Claim C9, as amended. After every sequence of successful \<^verbatim>\<open>place_worker\<close>, \<^verbatim>\<open>move\<close>,
  \<^verbatim>\<open>build\<close> and \<^verbatim>\<open>reset\<close> calls from a fresh board in which each \<^verbatim>\<open>place_worker\<close>
  targets a cell of the grid on which nothing has been built yet, every worker stands on a
  cell of the grid and its recorded height is the building height of that cell.
\<close>

theorem heights_synced_when_placed_on_ground:
  assumes "Board_init l w mh mw = Inr b0"
      and "run_ops b0 ops = Inr b"
      and "places_on_ground b0 ops"
  shows "heights_synced b"
proof -
  from board_wf_fresh[OF assms(1)] have "board_wf b0 \<and> heights_synced b0"
    by (simp add: heights_synced_def)
  from run_ops_keeps_sync[OF this assms(2,3)] show ?thesis by simp
qed

theorem heights_synced_when_placed_on_ground_witness:
  "Board_init 3 3 4 2
     = Inr \<lparr>length_b = 3, width = 3, max_height = 4, max_workers_per_player = 2,
            workers = [], board_blocks = [[0, 0, 0], [0, 0, 0], [0, 0, 0]]\<rparr>
   \<and> run_ops \<lparr>length_b = 3, width = 3, max_height = 4, max_workers_per_player = 2,
              workers = [], board_blocks = [[0, 0, 0], [0, 0, 0], [0, 0, 0]]\<rparr>
        [Place BLUE 0 0, Place WHITE 2 2, Move BLUE 0 0 1 0, Build BLUE 1 0 0 0,
         Move BLUE 1 0 0 0]
     = Inr \<lparr>length_b = 3, width = 3, max_height = 4, max_workers_per_player = 2,
            workers = [\<lparr>x_of = 0, y_of = 0, height_of = 1, color_of = BLUE\<rparr>,
                       \<lparr>x_of = 2, y_of = 2, height_of = 0, color_of = WHITE\<rparr>],
            board_blocks = [[1, 0, 0], [0, 0, 0], [0, 0, 0]]\<rparr>
   \<and> places_on_ground \<lparr>length_b = 3, width = 3, max_height = 4, max_workers_per_player = 2,
              workers = [], board_blocks = [[0, 0, 0], [0, 0, 0], [0, 0, 0]]\<rparr>
        [Place BLUE 0 0, Place WHITE 2 2, Move BLUE 0 0 1 0, Build BLUE 1 0 0 0,
         Move BLUE 1 0 0 0]
   \<and> heights_synced \<lparr>length_b = 3, width = 3, max_height = 4, max_workers_per_player = 2,
            workers = [\<lparr>x_of = 0, y_of = 0, height_of = 1, color_of = BLUE\<rparr>,
                       \<lparr>x_of = 2, y_of = 2, height_of = 0, color_of = WHITE\<rparr>],
            board_blocks = [[1, 0, 0], [0, 0, 0], [0, 0, 0]]\<rparr>"
proof -
  let ?b0 = "\<lparr>length_b = 3, width = 3, max_height = 4, max_workers_per_player = 2,
              workers = [], board_blocks = [[0, 0, 0], [0, 0, 0], [0, 0, 0]]\<rparr>"
  let ?ops = "[Place BLUE 0 0, Place WHITE 2 2, Move BLUE 0 0 1 0, Build BLUE 1 0 0 0,
         Move BLUE 1 0 0 0]"
  have i: "Board_init 3 3 4 2 = Inr ?b0"
    by (simp add: Board_init_def numeral_3_eq_3)
  have r: "run_ops ?b0 ?ops
     = Inr \<lparr>length_b = 3, width = 3, max_height = 4, max_workers_per_player = 2,
            workers = [\<lparr>x_of = 0, y_of = 0, height_of = 1, color_of = BLUE\<rparr>,
                       \<lparr>x_of = 2, y_of = 2, height_of = 0, color_of = WHITE\<rparr>],
            board_blocks = [[1, 0, 0], [0, 0, 0], [0, 0, 0]]\<rparr>"
    by (simp add: board_eval)
  have g: "places_on_ground ?b0 ?ops"
    by (simp add: board_eval)
  from heights_synced_when_placed_on_ground [OF i r g] i r g show ?thesis by simp
qed

lemmas board_eval2 = board_eval run_from_fresh_def heights_synced_def

text \<open>
  As stated, without the condition on the placements, the invariant fails:
  \<^verbatim>\<open>place_worker\<close> always gives the new worker height 0, also on a cell that has been built
  on. Blue is placed at \<open>(0, 0)\<close> and builds at \<open>(1, 0)\<close>; White is then placed at
  \<open>(1, 0)\<close> with recorded height 0 on a cell of height 1. A worker placed at
  \<open>(7, 7)\<close> on a 3 by 3 board stands on no cell at all.
\<close>

theorem heights_synced_counterexample:
  "map_sum id workers
     (run_from_fresh 3 3 4 2 [Place BLUE 0 0, Build BLUE 0 0 1 0, Place WHITE 1 0])
     = Inr [\<lparr>x_of = 0, y_of = 0, height_of = 0, color_of = BLUE\<rparr>,
            \<lparr>x_of = 1, y_of = 0, height_of = 0, color_of = WHITE\<rparr>]
   \<and> map_sum id board_blocks
       (run_from_fresh 3 3 4 2 [Place BLUE 0 0, Build BLUE 0 0 1 0, Place WHITE 1 0])
     = Inr [[0, 1, 0], [0, 0, 0], [0, 0, 0]]
   \<and> map_sum id heights_synced
       (run_from_fresh 3 3 4 2 [Place BLUE 0 0, Build BLUE 0 0 1 0, Place WHITE 1 0])
     = Inr False
   \<and> map_sum id heights_synced (run_from_fresh 3 3 4 2 [Place BLUE 7 7]) = Inr False"
  by (simp add: board_eval2 numeral_3_eq_3)


section \<open>Properties of the turn engine\<close>


text \<open>The defining equations that evaluate the turn engine on concrete values.\<close>

lemmas game_eval =
  GameManager_init_def active_player_def current_turn_action_def previous_game_state_def
  or_raise_def change_active_player_def change_current_turn_action_def
  check_win_state_board_win_state_def check_moved_worker_before_build_def finish_turn_def
  update_place_def update_move_def update_build_def update_game_state_def
  check_loss_state_player_cant_build_def check_loss_state_player_cant_move_def
  check_win_state_one_player_left_def in_end_game_state_def

lemma seq_g1_eq:
  "seq_g1 =
      \<lparr>initial_board = seq_board,
       board = seq_board\<lparr>workers := [\<lparr>x_of = 0, y_of = 0, height_of = 0, color_of = BLUE\<rparr>]\<rparr>,
       initial_player_order = [BLUE, WHITE], player_order = [WHITE, BLUE],
       initial_turn_order = [MOVE, BUILD], turn_order = [MOVE, BUILD],
       game_state_log =
         [\<lparr>gs_active_player = BLUE,
           gs_board = seq_board\<lparr>workers := [\<lparr>x_of = 0, y_of = 0, height_of = 0, color_of = BLUE\<rparr>]\<rparr>,
           gs_turn_action = PLACE_WORKER, gs_turn = PlaceWorkerTurn BLUE 0 0\<rparr>]\<rparr>"
  by (simp add: seq_g1_def seq_g0_def seq_board_def game_eval board_eval)

lemma seq_g2_eq:
  "seq_g2 =
      \<lparr>initial_board = seq_board,
       board = seq_board\<lparr>workers := [\<lparr>x_of = 0, y_of = 0, height_of = 0, color_of = BLUE\<rparr>,
                                      \<lparr>x_of = 1, y_of = 1, height_of = 0, color_of = WHITE\<rparr>]\<rparr>,
       initial_player_order = [BLUE, WHITE], player_order = [BLUE, WHITE],
       initial_turn_order = [MOVE, BUILD], turn_order = [MOVE, BUILD],
       game_state_log =
         [\<lparr>gs_active_player = BLUE,
           gs_board = seq_board\<lparr>workers := [\<lparr>x_of = 0, y_of = 0, height_of = 0, color_of = BLUE\<rparr>]\<rparr>,
           gs_turn_action = PLACE_WORKER, gs_turn = PlaceWorkerTurn BLUE 0 0\<rparr>,
          \<lparr>gs_active_player = WHITE,
           gs_board = seq_board\<lparr>workers := [\<lparr>x_of = 0, y_of = 0, height_of = 0, color_of = BLUE\<rparr>,
                                      \<lparr>x_of = 1, y_of = 1, height_of = 0, color_of = WHITE\<rparr>]\<rparr>,
           gs_turn_action = PLACE_WORKER, gs_turn = PlaceWorkerTurn WHITE 1 1\<rparr>]\<rparr>"
  unfolding seq_g2_def seq_g1_eq
  by (simp add: seq_board_def game_eval board_eval)

lemma seq_g3_eq:
  "seq_g3 = seq_g2\<lparr>game_state_log := game_state_log seq_g2 @
         [\<lparr>gs_active_player = BLUE,
           gs_board = seq_board\<lparr>workers := [\<lparr>x_of = 1, y_of = 0, height_of = 0, color_of = BLUE\<rparr>,
                                      \<lparr>x_of = 1, y_of = 1, height_of = 0, color_of = WHITE\<rparr>]\<rparr>,
           gs_turn_action = MOVE, gs_turn = MoveTurn BLUE 0 0 1 0\<rparr>]\<rparr>"
  unfolding seq_g3_def seq_g2_eq
  by (simp add: seq_board_def game_eval board_eval)

text \<open>
  Claim C1, on the code. In the game of the sequence test both placements succeed, after
  which the required phase is \<open>MOVE\<close> and the active player is Blue. Blue's move from
  \<open>(0, 0)\<close> to \<open>(1, 0)\<close> does not succeed: it raises \<open>AttributeError\<close>. The phase
  rotation has then not advanced, so every \<open>BUILD\<close>, with the worker at \<open>(1, 0)\<close> as with
  any other, is rejected as out of order, and Blue stays the active player.
\<close>

theorem sequence_test_move_raises:
  "Board_init 3 3 2 1 = Inr seq_board
   \<and> fst (update_game_state PLACE_WORKER [0, 0] (Some BLUE) seq_g0) = None
   \<and> fst (update_game_state PLACE_WORKER [1, 1] (Some WHITE) seq_g1) = None
   \<and> current_turn_action seq_g2 = Inr MOVE
   \<and> active_player seq_g2 = Inr BLUE
   \<and> update_game_state MOVE [0, 0, 1, 0] (Some BLUE) seq_g2 = (Some AttributeError, seq_g3)
   \<and> current_turn_action seq_g3 = Inr MOVE
   \<and> update_game_state BUILD [0, 0, 2, 0] (Some BLUE) seq_g3 = (Some IllegalMoveError, seq_g3)
   \<and> update_game_state BUILD [1, 0, 2, 0] (Some BLUE) seq_g3 = (Some IllegalMoveError, seq_g3)
   \<and> active_player seq_g3 = Inr BLUE"
proof -
  have a: "Board_init 3 3 2 1 = Inr seq_board"
    by (simp add: Board_init_def seq_board_def numeral_3_eq_3)
  have b: "fst (update_game_state PLACE_WORKER [0, 0] (Some BLUE) seq_g0) = None"
    by (simp add: seq_g0_def seq_board_def game_eval board_eval)
  have c: "fst (update_game_state PLACE_WORKER [1, 1] (Some WHITE) seq_g1) = None"
    unfolding seq_g1_eq by (simp add: seq_board_def game_eval board_eval)
  have d: "current_turn_action seq_g2 = Inr MOVE" "active_player seq_g2 = Inr BLUE"
    unfolding seq_g2_eq by (simp_all add: seq_board_def game_eval board_eval)
  have e: "fst (update_game_state MOVE [0, 0, 1, 0] (Some BLUE) seq_g2) = Some AttributeError"
    unfolding seq_g2_eq by (simp add: seq_board_def game_eval board_eval)
  then have e': "update_game_state MOVE [0, 0, 1, 0] (Some BLUE) seq_g2 = (Some AttributeError, seq_g3)"
    by (simp add: seq_g3_def prod_eq_iff)
  have f: "current_turn_action seq_g3 = Inr MOVE" "active_player seq_g3 = Inr BLUE"
    unfolding seq_g3_eq seq_g2_eq by (simp_all add: seq_board_def game_eval board_eval)
  have g: "update_game_state BUILD tc (Some BLUE) seq_g3 = (Some IllegalMoveError, seq_g3)" for tc
    using f by (simp add: update_game_state_def or_raise_def)
  from a b c d e' f g show ?thesis by simp
qed

text \<open>
  Claim C2, on the code. The same move leaves a partially applied action: the call raises,
  yet the log has grown by the snapshot of the move, whose board has Blue at \<open>(1, 0)\<close>,
  while the cached board still has Blue at \<open>(0, 0)\<close>; the two rotations are unchanged.
\<close>

theorem move_appends_snapshot_without_commit:
  "update_game_state MOVE [0, 0, 1, 0] None seq_g2 = (Some AttributeError, seq_g3)
   \<and> length (game_state_log seq_g3) = length (game_state_log seq_g2) + 1
   \<and> gs_turn (last (game_state_log seq_g3)) = MoveTurn BLUE 0 0 1 0
   \<and> workers (gs_board (last (game_state_log seq_g3)))
       = [\<lparr>x_of = 1, y_of = 0, height_of = 0, color_of = BLUE\<rparr>,
          \<lparr>x_of = 1, y_of = 1, height_of = 0, color_of = WHITE\<rparr>]
   \<and> board seq_g3 = board seq_g2
   \<and> workers (board seq_g3)
       = [\<lparr>x_of = 0, y_of = 0, height_of = 0, color_of = BLUE\<rparr>,
          \<lparr>x_of = 1, y_of = 1, height_of = 0, color_of = WHITE\<rparr>]
   \<and> player_order seq_g3 = player_order seq_g2
   \<and> turn_order seq_g3 = turn_order seq_g2"
proof -
  have "update_game_state MOVE [0, 0, 1, 0] None seq_g2
          = update_game_state MOVE [0, 0, 1, 0] (Some BLUE) seq_g2"
    unfolding seq_g2_eq by (simp add: update_game_state_def or_raise_def active_player_def)
  moreover have "fst (update_game_state MOVE [0, 0, 1, 0] (Some BLUE) seq_g2) = Some AttributeError"
    unfolding seq_g2_eq by (simp add: seq_board_def game_eval board_eval)
  ultimately have "update_game_state MOVE [0, 0, 1, 0] None seq_g2 = (Some AttributeError, seq_g3)"
    by (simp add: seq_g3_def prod_eq_iff)
  moreover have "length (game_state_log seq_g3) = length (game_state_log seq_g2) + 1"
    "gs_turn (last (game_state_log seq_g3)) = MoveTurn BLUE 0 0 1 0"
    "workers (gs_board (last (game_state_log seq_g3)))
       = [\<lparr>x_of = 1, y_of = 0, height_of = 0, color_of = BLUE\<rparr>,
          \<lparr>x_of = 1, y_of = 1, height_of = 0, color_of = WHITE\<rparr>]"
    "board seq_g3 = board seq_g2"
    "player_order seq_g3 = player_order seq_g2"
    "turn_order seq_g3 = turn_order seq_g2"
    unfolding seq_g3_eq by simp_all
  moreover have "workers (board seq_g3)
       = [\<lparr>x_of = 0, y_of = 0, height_of = 0, color_of = BLUE\<rparr>,
          \<lparr>x_of = 1, y_of = 1, height_of = 0, color_of = WHITE\<rparr>]"
    unfolding seq_g3_eq seq_g2_eq by simp
  ultimately show ?thesis by simp
qed


lemma stuck_g1_eq:
  "stuck_g1 =
      \<lparr>initial_board = stuck_board,
       board = stuck_board\<lparr>workers := [\<lparr>x_of = 0, y_of = 0, height_of = 0, color_of = BLUE\<rparr>]\<rparr>,
       initial_player_order = [BLUE, WHITE], player_order = [WHITE, BLUE],
       initial_turn_order = [MOVE, BUILD], turn_order = [MOVE, BUILD],
       game_state_log =
         [\<lparr>gs_active_player = BLUE,
           gs_board = stuck_board\<lparr>workers := [\<lparr>x_of = 0, y_of = 0, height_of = 0, color_of = BLUE\<rparr>]\<rparr>,
           gs_turn_action = PLACE_WORKER, gs_turn = PlaceWorkerTurn BLUE 0 0\<rparr>]\<rparr>"
  by (simp add: stuck_g1_def stuck_g0_def stuck_board_def game_eval board_eval)

lemma stuck_g2_eq:
  "stuck_g2 =
      \<lparr>initial_board = stuck_board,
       board = stuck_board\<lparr>workers := [\<lparr>x_of = 0, y_of = 0, height_of = 0, color_of = BLUE\<rparr>,
                                      \<lparr>x_of = 1, y_of = 0, height_of = 0, color_of = WHITE\<rparr>]\<rparr>,
       initial_player_order = [BLUE, WHITE], player_order = [BLUE, WHITE],
       initial_turn_order = [MOVE, BUILD], turn_order = [MOVE, BUILD],
       game_state_log =
         [\<lparr>gs_active_player = BLUE,
           gs_board = stuck_board\<lparr>workers := [\<lparr>x_of = 0, y_of = 0, height_of = 0, color_of = BLUE\<rparr>]\<rparr>,
           gs_turn_action = PLACE_WORKER, gs_turn = PlaceWorkerTurn BLUE 0 0\<rparr>,
          \<lparr>gs_active_player = WHITE,
           gs_board = stuck_board\<lparr>workers := [\<lparr>x_of = 0, y_of = 0, height_of = 0, color_of = BLUE\<rparr>,
                                      \<lparr>x_of = 1, y_of = 0, height_of = 0, color_of = WHITE\<rparr>]\<rparr>,
           gs_turn_action = PLACE_WORKER, gs_turn = PlaceWorkerTurn WHITE 1 0\<rparr>]\<rparr>"
  unfolding stuck_g2_def stuck_g1_eq
  by (simp add: stuck_board_def game_eval board_eval)

text \<open>
  Claim C5, on the code. On the board of one row and two columns both players are placed,
  the required phase is \<open>MOVE\<close>, two players remain and Blue, the active player, has no
  valid move. The end-of-turn check does not remove Blue: it raises \<open>AttributeError\<close> and
  leaves the player rotation as it was.
\<close>

theorem stuck_player_check_raises:
  "Board_init 1 2 4 1 = Inr stuck_board
   \<and> fst (update_game_state PLACE_WORKER [0, 0] (Some BLUE) stuck_g0) = None
   \<and> fst (update_game_state PLACE_WORKER [1, 0] (Some WHITE) stuck_g1) = None
   \<and> current_turn_action stuck_g2 = Inr MOVE
   \<and> player_order stuck_g2 = [BLUE, WHITE]
   \<and> player_can_move (board stuck_g2) BLUE = Inr False
   \<and> player_in_lose_state_before_move (board stuck_g2) BLUE = Inr True
   \<and> in_end_game_state stuck_g2 = (Inl AttributeError, stuck_g2)"
proof -
  have a: "Board_init 1 2 4 1 = Inr stuck_board"
    by (simp add: Board_init_def stuck_board_def numeral_2_eq_2)
  have b: "fst (update_game_state PLACE_WORKER [0, 0] (Some BLUE) stuck_g0) = None"
    by (simp add: stuck_g0_def stuck_board_def game_eval board_eval)
  have c: "fst (update_game_state PLACE_WORKER [1, 0] (Some WHITE) stuck_g1) = None"
    unfolding stuck_g1_eq by (simp add: stuck_board_def game_eval board_eval)
  have d: "current_turn_action stuck_g2 = Inr MOVE" "player_order stuck_g2 = [BLUE, WHITE]"
    unfolding stuck_g2_eq by (simp_all add: stuck_board_def game_eval board_eval)
  have e: "player_can_move (board stuck_g2) BLUE = Inr False"
    unfolding stuck_g2_eq by (simp add: stuck_board_def player_can_move_def board_eval)
  then have f: "player_in_lose_state_before_move (board stuck_g2) BLUE = Inr True"
    by (simp add: player_in_lose_state_before_move_def)
  have "game_state_log stuck_g2 \<noteq> []"
    unfolding stuck_g2_eq by simp
  with d have g: "in_end_game_state stuck_g2 = (Inl AttributeError, stuck_g2)"
    by (simp add: in_end_game_state_def check_loss_state_player_cant_build_def
        check_loss_state_player_cant_move_def previous_game_state_def or_raise_def Let_def
        stuck_g2_eq)
  from a b c d e f g show ?thesis by simp
qed

text \<open>
  What does hold of the end-of-turn checks: with one player left the manager reports the
  win at once; and the check for a player who cannot move raises whenever its guard holds,
  whatever the board.
\<close>

lemma one_player_left_wins:
  assumes "length (player_order gm) = 1"
  shows "in_end_game_state gm = (Inr True, gm)"
  using assms
  by (simp add: in_end_game_state_def check_loss_state_player_cant_build_def
      check_loss_state_player_cant_move_def check_win_state_one_player_left_def Let_def
      split: option.splits)

lemma cant_move_check_always_raises:
  assumes "game_state_log gm \<noteq> []" and "length (player_order gm) \<noteq> 1"
      and "current_turn_action gm = Inr MOVE"
  shows "check_loss_state_player_cant_move gm = (Some AttributeError, gm)"
  using assms
  by (simp add: check_loss_state_player_cant_move_def previous_game_state_def or_raise_def)

text \<open>
  The defect in general: no \<open>MOVE\<close> ever returns normally, and a \<open>MOVE\<close> that the board
  accepts leaves its snapshot in the log without the board being committed.
\<close>

lemma update_move_never_returns:
  "fst (update_game_state MOVE tc expected gm) \<noteq> None"
  by (auto simp: update_game_state_def update_move_def or_raise_def split: sum.splits)

lemma update_move_defect:
  assumes "active_player gm = Inr p" and "expected = None \<or> expected = Some p"
      and "current_turn_action gm = Inr MOVE"
      and "move (board gm) p sx sy ex ey = Inr b"
  shows "update_game_state MOVE [sx, sy, ex, ey] expected gm
           = (Some AttributeError,
              gm\<lparr>game_state_log := game_state_log gm @
                   [\<lparr>gs_active_player = p, gs_board = b, gs_turn_action = MOVE,
                     gs_turn = MoveTurn p sx sy ex ey\<rparr>]\<rparr>)"
  using assms
  by (auto simp: update_game_state_def update_move_def or_raise_def getitem_def)

text \<open>
  In the other two phases the log and the board stay together: a \<open>PLACE_WORKER\<close> or
  \<open>BUILD\<close> call either raises and leaves the manager as it was, or appends one snapshot
  and makes the snapshot's board the current board. In the second case the call need not
  return normally: the win check that follows the assignment can still raise
  \<open>IllegalBoardStateError\<close>.
\<close>

lemma finish_turn_keeps_log_and_board:
  assumes "finish_turn f gm = (r, gm')"
  shows "game_state_log gm' = game_state_log gm \<and> board gm' = board gm"
  using assms
  by (auto simp: finish_turn_def change_active_player_def change_current_turn_action_def
      Let_def split: sum.splits option.splits list.splits if_splits)

lemma update_place_shape:
  assumes "update_place tc p gm = (r, gm')"
  shows "(r \<noteq> None \<and> gm' = gm)
       \<or> (\<exists>x y b. finish_turn False
              (gm\<lparr>game_state_log := game_state_log gm @
                     [\<lparr>gs_active_player = p, gs_board = b, gs_turn_action = PLACE_WORKER,
                       gs_turn = PlaceWorkerTurn p x y\<rparr>],
                  board := b\<rparr>) = (r, gm'))"
  using assms
  by (auto simp: update_place_def or_raise_def split: sum.splits)

lemma update_build_shape:
  assumes "update_build tc p gm = (r, gm')"
  shows "(r \<noteq> None \<and> gm' = gm)
       \<or> (\<exists>wx wy bx by' b. finish_turn False
              (gm\<lparr>game_state_log := game_state_log gm @
                     [\<lparr>gs_active_player = p, gs_board = b, gs_turn_action = BUILD,
                       gs_turn = BuildTurn p wx wy bx by'\<rparr>],
                  board := b\<rparr>) = (r, gm'))"
  using assms
  by (auto simp: update_build_def or_raise_def split: sum.splits option.splits)

lemma place_build_commit_or_reject:
  assumes "ta \<noteq> MOVE" and "update_game_state ta tc expected gm = (r, gm')"
  shows "(r \<noteq> None \<and> gm' = gm)
       \<or> (\<exists>snap. game_state_log gm' = game_state_log gm @ [snap]
             \<and> board gm' = gs_board snap \<and> gs_turn_action snap = ta)"
proof (cases "r \<noteq> None \<and> gm' = gm")
  case True
  then show ?thesis by simp
next
  case False
  with assms obtain p where run: "(ta = PLACE_WORKER \<and> update_place tc p gm = (r, gm'))
        \<or> (ta = BUILD \<and> update_build tc p gm = (r, gm'))"
    by (cases ta) (auto simp: update_game_state_def or_raise_def split: sum.splits if_splits)
  show ?thesis
  proof (cases ta)
    case PLACE_WORKER
    with run False update_place_shape[of tc p gm r gm'] obtain x y b where
      "finish_turn False
              (gm\<lparr>game_state_log := game_state_log gm @
                     [\<lparr>gs_active_player = p, gs_board = b, gs_turn_action = PLACE_WORKER,
                       gs_turn = PlaceWorkerTurn p x y\<rparr>],
                  board := b\<rparr>) = (r, gm')" by auto
    from finish_turn_keeps_log_and_board[OF this] PLACE_WORKER show ?thesis by simp
  next
    case MOVE
    with assms show ?thesis by simp
  next
    case BUILD
    with run False update_build_shape[of tc p gm r gm'] obtain wx wy bx by' b where
      "finish_turn False
              (gm\<lparr>game_state_log := game_state_log gm @
                     [\<lparr>gs_active_player = p, gs_board = b, gs_turn_action = BUILD,
                       gs_turn = BuildTurn p wx wy bx by'\<rparr>],
                  board := b\<rparr>) = (r, gm')" by auto
    from finish_turn_keeps_log_and_board[OF this] BUILD show ?thesis by simp
  qed
qed

text \<open>Both rotations keep their shape.\<close>

lemma finish_turn_orders:
  assumes "finish_turn f gm = (r, gm')"
  shows "(turn_order gm' = turn_order gm \<or> turn_order gm' = rotate1 (turn_order gm))
       \<and> (player_order gm' = player_order gm \<or> player_order gm' = rotate1 (player_order gm))"
  using assms
  by (auto simp: finish_turn_def change_active_player_def change_current_turn_action_def
      Let_def split: sum.splits option.splits list.splits if_splits)

lemma update_game_state_orders:
  assumes "update_game_state ta tc expected gm = (r, gm')"
  shows "(turn_order gm' = turn_order gm \<or> turn_order gm' = rotate1 (turn_order gm))
       \<and> (player_order gm' = player_order gm \<or> player_order gm' = rotate1 (player_order gm))"
proof -
  have "gm' = gm \<or> (\<exists>l. gm' = gm\<lparr>game_state_log := l\<rparr>)
        \<or> (\<exists>l b. finish_turn False (gm\<lparr>game_state_log := l, board := b\<rparr>) = (r, gm'))"
    using assms
    by (auto simp: update_game_state_def update_place_def update_move_def update_build_def
        or_raise_def split: sum.splits option.splits turn_actions.splits if_splits)
  then show ?thesis
    using finish_turn_orders by fastforce
qed

lemma turn_order_invariant:
  assumes "turn_order gm = [MOVE, BUILD] \<or> turn_order gm = [BUILD, MOVE]"
  shows "turn_order (snd (update_game_state ta tc expected gm)) = [MOVE, BUILD]
       \<or> turn_order (snd (update_game_state ta tc expected gm)) = [BUILD, MOVE]"
  using assms update_game_state_orders [of ta tc expected gm]
  by (cases "update_game_state ta tc expected gm") auto

lemma player_order_invariant:
  assumes "player_order gm \<noteq> []"
  shows "player_order (snd (update_game_state ta tc expected gm)) \<noteq> []"
  using assms update_game_state_orders [of ta tc expected gm]
  by (cases "update_game_state ta tc expected gm") auto

lemma init_orders:
  "turn_order (GameManager_init order b) = [MOVE, BUILD]
   \<and> player_order (GameManager_init order b) = order"
  by (simp add: GameManager_init_def)



lemma check_moved_rejects:
  assumes "game_state_log gm = []
         \<or> gs_turn_action (last (game_state_log gm)) \<noteq> MOVE
         \<or> (\<exists>c sx sy ex ey. gs_turn (last (game_state_log gm)) = MoveTurn c sx sy ex ey
               \<and> (ex, ey) \<noteq> (wx, wy))"
  shows "check_moved_worker_before_build gm wx wy \<noteq> None"
    and "gs_turn_action (last (game_state_log gm)) = MOVE
           \<longrightarrow> (\<exists>c sx sy ex ey. gs_turn (last (game_state_log gm)) = MoveTurn c sx sy ex ey)
         \<Longrightarrow> check_moved_worker_before_build gm wx wy = Some IllegalMoveError"
  using assms
  by (auto simp: check_moved_worker_before_build_def previous_game_state_def
      split: turn_args.splits)

lemma update_build_rejects:
  assumes "game_state_log gm = []
         \<or> gs_turn_action (last (game_state_log gm)) \<noteq> MOVE
         \<or> (\<exists>c sx sy ex ey. gs_turn (last (game_state_log gm)) = MoveTurn c sx sy ex ey
               \<and> (ex, ey) \<noteq> (tc ! 0, tc ! 1))"
  shows "fst (update_build tc p gm) \<noteq> None \<and> snd (update_build tc p gm) = gm"
proof (cases "2 \<le> length tc")
  case True
  then have g: "getitem tc 0 = Inr (tc ! 0)" "getitem tc 1 = Inr (tc ! 1)"
    by (auto simp: getitem_def)
  from check_moved_rejects(1)[OF assms] obtain e
    where "check_moved_worker_before_build gm (tc ! 0) (tc ! 1) = Some e" by auto
  with g show ?thesis by (simp add: update_build_def or_raise_def)
next
  case False
  then have "getitem tc 0 = Inl IndexError \<or> getitem tc 1 = Inl IndexError"
    by (auto simp: getitem_def)
  then show ?thesis
    by (auto simp: update_build_def or_raise_def split: sum.splits)
qed

text \<open>
  Claim C3, as amended. In every state a \<open>BUILD\<close> fails and changes nothing whenever the
  log is empty, or the last logged action is not a \<open>MOVE\<close>, or the worker position given
  for the build differs from the destination of the last logged move; in particular no
  \<open>BUILD\<close> succeeds as the first action of a game. The exception is \<open>IllegalMoveError\<close>
  when at least one player is in the player rotation, the phase rotation is not empty and
  the coordinates hold a worker position (at least two entries).
\<close>

theorem build_rejected_without_matching_move:
  assumes "game_state_log gm = []
         \<or> gs_turn_action (last (game_state_log gm)) \<noteq> MOVE
         \<or> (\<exists>c sx sy ex ey. gs_turn (last (game_state_log gm)) = MoveTurn c sx sy ex ey
               \<and> (ex, ey) \<noteq> (tc ! 0, tc ! 1))"
  shows "fst (update_game_state BUILD tc expected gm) \<noteq> None
       \<and> snd (update_game_state BUILD tc expected gm) = gm
       \<and> (player_order gm \<noteq> [] \<and> turn_order gm \<noteq> [] \<and> 2 \<le> length tc
            \<longrightarrow> update_game_state BUILD tc expected gm = (Some IllegalMoveError, gm))"
proof -
  have unchanged: "fst (update_game_state BUILD tc expected gm) \<noteq> None
       \<and> snd (update_game_state BUILD tc expected gm) = gm"
    using update_build_rejects[OF assms]
    by (auto simp: update_game_state_def or_raise_def split: sum.splits)
  have illegal: "update_game_state BUILD tc expected gm = (Some IllegalMoveError, gm)"
    if wf: "player_order gm \<noteq> []" "turn_order gm \<noteq> []" "2 \<le> length tc"
  proof -
    from wf(1) obtain p where p: "active_player gm = Inr p"
      by (cases "player_order gm") (auto simp: active_player_def)
    from wf(2) have "\<exists>r. current_turn_action gm = Inr r"
      by (cases "turn_order gm") (simp_all add: current_turn_action_def Let_def)
    then obtain r where r: "current_turn_action gm = Inr r" ..
    from wf(3) have g: "getitem tc 0 = Inr (tc ! 0)" "getitem tc 1 = Inr (tc ! 1)"
      by (auto simp: getitem_def)
    have "check_moved_worker_before_build gm (tc ! 0) (tc ! 1) = Some IllegalMoveError"
      using assms
      by (auto simp: check_moved_worker_before_build_def previous_game_state_def)
    with g have "update_build tc p gm = (Some IllegalMoveError, gm)"
      by (simp add: update_build_def or_raise_def)
    with p r show ?thesis
      by (simp add: update_game_state_def or_raise_def)
  qed
  from unchanged illegal show ?thesis by blast
qed

theorem build_rejected_without_matching_move_witness:
  "player_order (seq_g3\<lparr>turn_order := [BUILD, MOVE]\<rparr>) \<noteq> []
   \<and> turn_order (seq_g3\<lparr>turn_order := [BUILD, MOVE]\<rparr>) \<noteq> []
   \<and> current_turn_action (seq_g3\<lparr>turn_order := [BUILD, MOVE]\<rparr>) = Inr BUILD
   \<and> gs_turn (last (game_state_log (seq_g3\<lparr>turn_order := [BUILD, MOVE]\<rparr>)))
       = MoveTurn BLUE 0 0 1 0
   \<and> update_game_state BUILD [0, 0, 2, 0] (Some BLUE) (seq_g3\<lparr>turn_order := [BUILD, MOVE]\<rparr>)
       = (Some IllegalMoveError, seq_g3\<lparr>turn_order := [BUILD, MOVE]\<rparr>)
   \<and> game_state_log seq_g0 = []
   \<and> fst (update_game_state BUILD [0, 0, 1, 0] (Some BLUE) seq_g0) \<noteq> None
   \<and> snd (update_game_state BUILD [0, 0, 1, 0] (Some BLUE) seq_g0) = seq_g0"
proof -
  let ?g = "seq_g3\<lparr>turn_order := [BUILD, MOVE]\<rparr>"
  have p: "player_order ?g \<noteq> []" "turn_order ?g \<noteq> []"
    unfolding seq_g3_eq seq_g2_eq by simp_all
  have c: "current_turn_action ?g = Inr BUILD"
    unfolding seq_g3_eq seq_g2_eq
    by (simp add: seq_board_def current_turn_action_def board_eval)
  have l: "gs_turn (last (game_state_log ?g)) = MoveTurn BLUE 0 0 1 0"
    unfolding seq_g3_eq by simp
  then have h: "game_state_log ?g = []
         \<or> gs_turn_action (last (game_state_log ?g)) \<noteq> MOVE
         \<or> (\<exists>c sx sy ex ey. gs_turn (last (game_state_log ?g)) = MoveTurn c sx sy ex ey
               \<and> (ex, ey) \<noteq> ([0, 0, 2, 0] ! 0, [0, 0, 2, 0] ! 1))"
    by simp
  have e: "game_state_log seq_g0 = []"
    by (simp add: seq_g0_def GameManager_init_def)
  from build_rejected_without_matching_move [of ?g "[0, 0, 2, 0]" "Some BLUE", OF h] p
  have "update_game_state BUILD [0, 0, 2, 0] (Some BLUE) ?g = (Some IllegalMoveError, ?g)"
    by simp
  moreover from build_rejected_without_matching_move [of seq_g0 "[0, 0, 1, 0]" "Some BLUE"] e
  have "fst (update_game_state BUILD [0, 0, 1, 0] (Some BLUE) seq_g0) \<noteq> None
      \<and> snd (update_game_state BUILD [0, 0, 1, 0] (Some BLUE) seq_g0) = seq_g0"
    by simp
  ultimately show ?thesis using p c l e by simp
qed

text \<open>
  As stated, for every state and with an \<open>IllegalMoveError\<close> in every case, the claim
  fails. A manager built with no players has an empty log, and its first \<open>BUILD\<close> raises
  \<open>IndexError\<close>: the debug message at the top of \<^verbatim>\<open>update_game_state\<close> reads
  \<^verbatim>\<open>self.player_order[0]\<close>. The same exception comes from an empty phase rotation, and
  from a coordinate list without a worker position when \<open>BUILD\<close> is the required phase
  (here on a board whose worker cap is 0, so that nobody is left to place).
\<close>

theorem build_without_players_counterexample:
  "game_state_log (GameManager_init [] seq_board) = []
   \<and> update_game_state BUILD [0, 0, 1, 0] None (GameManager_init [] seq_board)
       = (Some IndexError, GameManager_init [] seq_board)
   \<and> game_state_log
         ((GameManager_init [BLUE, WHITE] (seq_board\<lparr>max_workers_per_player := 0\<rparr>))
            \<lparr>turn_order := []\<rparr>) = []
   \<and> update_game_state BUILD [0, 0, 1, 0] None
         ((GameManager_init [BLUE, WHITE] (seq_board\<lparr>max_workers_per_player := 0\<rparr>))
            \<lparr>turn_order := []\<rparr>)
       = (Some IndexError,
          (GameManager_init [BLUE, WHITE] (seq_board\<lparr>max_workers_per_player := 0\<rparr>))
            \<lparr>turn_order := []\<rparr>)
   \<and> game_state_log
         ((GameManager_init [BLUE, WHITE] (seq_board\<lparr>max_workers_per_player := 0\<rparr>))
            \<lparr>turn_order := [BUILD, MOVE]\<rparr>) = []
   \<and> current_turn_action
         ((GameManager_init [BLUE, WHITE] (seq_board\<lparr>max_workers_per_player := 0\<rparr>))
            \<lparr>turn_order := [BUILD, MOVE]\<rparr>) = Inr BUILD
   \<and> update_game_state BUILD [] None
         ((GameManager_init [BLUE, WHITE] (seq_board\<lparr>max_workers_per_player := 0\<rparr>))
            \<lparr>turn_order := [BUILD, MOVE]\<rparr>)
       = (Some IndexError,
          (GameManager_init [BLUE, WHITE] (seq_board\<lparr>max_workers_per_player := 0\<rparr>))
            \<lparr>turn_order := [BUILD, MOVE]\<rparr>)"
  by (simp add: seq_board_def game_eval board_eval)

text \<open>
  Claim C4. With the phase rotation a rotation of \<open>[MOVE, BUILD]\<close>, as the constructor
  builds it, the required phase is \<open>PLACE_WORKER\<close> exactly when some player of the player
  rotation has fewer workers on the current board than the cap, and the head of the phase
  rotation otherwise; it is computed from the current board and the two rotations, not
  from the log.
\<close>

theorem current_turn_action_resolution:
  assumes "turn_order gm = [MOVE, BUILD] \<or> turn_order gm = [BUILD, MOVE]"
  shows "(current_turn_action gm = Inr PLACE_WORKER \<longleftrightarrow>
            (\<exists>c \<in> set (player_order gm).
               int (length (filter (\<lambda>w. color_of w = c) (workers (board gm))))
                 < max_workers_per_player (board gm)))
       \<and> (current_turn_action gm \<noteq> Inr PLACE_WORKER
            \<longrightarrow> current_turn_action gm = Inr (hd (turn_order gm)))
       \<and> current_turn_action (gm\<lparr>game_state_log := l\<rparr>) = current_turn_action gm"
  using assms
  by (auto simp: current_turn_action_def Let_def list_ex_iff player_can_place_workers_def
      num_workers_count)

theorem current_turn_action_resolution_witness:
  "turn_order seq_g1 = [MOVE, BUILD]
   \<and> current_turn_action seq_g1 = Inr PLACE_WORKER
   \<and> (\<exists>c \<in> set (player_order seq_g1).
          int (length (filter (\<lambda>w. color_of w = c) (workers (board seq_g1))))
            < max_workers_per_player (board seq_g1))
   \<and> turn_order seq_g2 = [MOVE, BUILD]
   \<and> \<not> (\<exists>c \<in> set (player_order seq_g2).
          int (length (filter (\<lambda>w. color_of w = c) (workers (board seq_g2))))
            < max_workers_per_player (board seq_g2))
   \<and> current_turn_action seq_g2 = Inr MOVE"
proof -
  have t1: "turn_order seq_g1 = [MOVE, BUILD]" unfolding seq_g1_eq by simp
  have t2: "turn_order seq_g2 = [MOVE, BUILD]" unfolding seq_g2_eq by simp
  have c1: "current_turn_action seq_g1 = Inr PLACE_WORKER"
    unfolding seq_g1_eq by (simp add: seq_board_def current_turn_action_def board_eval)
  have c2: "current_turn_action seq_g2 = Inr MOVE"
    unfolding seq_g2_eq by (simp add: seq_board_def current_turn_action_def board_eval)
  from current_turn_action_resolution [of seq_g1] current_turn_action_resolution [of seq_g2]
    t1 t2 c1 c2
  show ?thesis by simp
qed

end
